theory Spec2Isabelle
  imports Main "HOL-Library.AList"
begin

section \<open>JavaScript strings\<close>

text \<open>
  A JavaScript string is a sequence of UTF-16 code units; \<open>length\<close>, \<open>padEnd\<close>,
  \<open>slice\<close>, \<open>trim\<close> and the regular expressions of the source all work on code units.
  A code unit is modelled as a natural number (below 65536 in every real string), so that
  the arrow U+2192 of the diff header and the Unicode white space that \<open>trim\<close> and
  \<open>\s\<close> recognise are ordinary characters of the model.
\<close>

type_synonym jstring = "nat list"

abbreviation (input) js :: "string \<Rightarrow> jstring" where
  "js s \<equiv> map of_char s"

text \<open>The character classes \<open>\s\<close> (also what \<open>trim\<close> strips), \<open>\d\<close> and \<open>\w\<close>.\<close>

definition isWhiteSpace :: "nat \<Rightarrow> bool" where
  "isWhiteSpace c \<longleftrightarrow>
     (9 \<le> c \<and> c \<le> 13) \<or> c = 32 \<or> c = 160 \<or> c = 5760 \<or> (8192 \<le> c \<and> c \<le> 8202) \<or>
     c = 8232 \<or> c = 8233 \<or> c = 8239 \<or> c = 8287 \<or> c = 12288 \<or> c = 65279"

definition isDigit :: "nat \<Rightarrow> bool" where
  "isDigit c \<longleftrightarrow> 48 \<le> c \<and> c \<le> 57"

definition isWordChar :: "nat \<Rightarrow> bool" where
  "isWordChar c \<longleftrightarrow> isDigit c \<or> (65 \<le> c \<and> c \<le> 90) \<or> (97 \<le> c \<and> c \<le> 122) \<or> c = 95"

text \<open>\<open>s.trim()\<close>\<close>

definition trim :: "jstring \<Rightarrow> jstring" where
  "trim s = rev (dropWhile isWhiteSpace (rev (dropWhile isWhiteSpace s)))"

text \<open>\<open>s.split(c)\<close> for a one-character separator: never empty, \<open>''.split(c)\<close> is \<open>['']\<close>.\<close>

fun split_str :: "nat \<Rightarrow> jstring \<Rightarrow> jstring list" where
  "split_str c [] = [[]]"
| "split_str c (x # xs) =
     (if x = c then [] # split_str c xs
      else (case split_str c xs of [] \<Rightarrow> [[x]] | p # ps \<Rightarrow> (x # p) # ps))"

text \<open>\<open>xs.join(sep)\<close>\<close>

fun join :: "jstring \<Rightarrow> jstring list \<Rightarrow> jstring" where
  "join sep [] = []"
| "join sep [x] = x"
| "join sep (x # y # ys) = x @ sep @ join sep (y # ys)"

text \<open>\<open>s.padEnd(w)\<close> pads with spaces; \<open>s.startsWith(p)\<close>; \<open>s.slice(1, -1)\<close>.\<close>

definition padEnd :: "jstring \<Rightarrow> nat \<Rightarrow> jstring" where
  "padEnd s w = s @ replicate (w - length s) 32"

definition startsWith :: "jstring \<Rightarrow> jstring \<Rightarrow> bool" where
  "startsWith s p \<longleftrightarrow> take (length p) s = p"

definition slice_1_m1 :: "jstring \<Rightarrow> jstring" where
  "slice_1_m1 s = butlast (tl s)"

text \<open>
  The decimal text of a non-negative integer, as a template literal prints an array
  length.
\<close>

function Number_toString :: "nat \<Rightarrow> jstring" where
  "Number_toString n =
     (if n < 10 then [48 + n] else Number_toString (n div 10) @ [48 + n mod 10])"
  by pat_completeness auto
termination
  by (relation "measure id") auto

declare Number_toString.simps [simp del]

text \<open>The integer that a string of decimal digits denotes.\<close>

definition decimalValue :: "jstring \<Rightarrow> nat" where
  "decimalValue ds = foldl (\<lambda>a c. 10 * a + (c - 48)) 0 ds"

text \<open>
  A JavaScript number is a double. The numbers met here are the non-negative integers
  among the doubles, and \<open>Infinity\<close>. \<open>toNumber\<close> is the double nearest to an
  integer, ties going to the even significand: an integer below \<open>2 ^ 53\<close> is a double;
  a larger one keeps its 53 leading bits, rounded on the bits dropped; from
  \<open>2 ^ 1024\<close> on the result is \<open>Infinity\<close>.
\<close>

datatype jsnumber = Num nat | PosInfinity

function bitLength :: "nat \<Rightarrow> nat" where
  "bitLength n = (if n = 0 then 0 else Suc (bitLength (n div 2)))"
  by pat_completeness auto
termination
  by (relation "measure id") auto

declare bitLength.simps [simp del]

definition toNumber :: "nat \<Rightarrow> jsnumber" where
  "toNumber n =
     (if n < 2 ^ 53 then Num n
      else
        (let e = bitLength n - 53;
             q = n div 2 ^ e;
             r = n mod 2 ^ e;
             q' = (if 2 * r > 2 ^ e \<or> (2 * r = 2 ^ e \<and> odd q) then q + 1 else q)
         in if q' * 2 ^ e \<ge> 2 ^ 1024 then PosInfinity else Num (q' * 2 ^ e)))"

text \<open>
  \<open>Number.parseInt(ds, 10)\<close> on a string of decimal digits: the double nearest to the
  integer the digits denote, as V8 computes it. (From the 21st significant digit on,
  ECMAScript lets an implementation read the digits as zeros; such a number is above
  \<open>10 ^ 20\<close> either way.)
\<close>

definition Number_parseInt :: "jstring \<Rightarrow> jsnumber" where
  "Number_parseInt ds = toNumber (decimalValue ds)"

section \<open>Regular expressions of the source\<close>

text \<open>
  Every pattern of the source is anchored at the start of the line and made of literals
  and greedy runs \<open>\d+\<close> or \<open>\w+\<close>, each followed by a literal outside the run's class, so
  that the longest run is the only one that can match.
\<close>

definition matchLit :: "jstring \<Rightarrow> jstring \<Rightarrow> jstring option" where
  "matchLit p s = (if startsWith s p then Some (drop (length p) s) else None)"

definition matchPlus :: "(nat \<Rightarrow> bool) \<Rightarrow> jstring \<Rightarrow> (jstring \<times> jstring) option" where
  "matchPlus cls s =
     (if takeWhile cls s = [] then None else Some (takeWhile cls s, dropWhile cls s))"

text \<open>\<open>/^#conversation\[(\d+)\]:/\<close>, returning the captured digits.\<close>

definition conversationMatch :: "jstring \<Rightarrow> jstring option" where
  "conversationMatch line =
     (case matchLit (js ''#conversation['') line of None \<Rightarrow> None | Some r1 \<Rightarrow>
      (case matchPlus isDigit r1 of None \<Rightarrow> None | Some (ds, r2) \<Rightarrow>
       (case matchLit (js '']:'') r2 of None \<Rightarrow> None | Some r3 \<Rightarrow> Some ds)))"

text \<open>\<open>/^(#document\[\+\d+\]):/\<close>, returning the captured key.\<close>

definition docMatch :: "jstring \<Rightarrow> jstring option" where
  "docMatch line =
     (case matchLit (js ''#document[+'') line of None \<Rightarrow> None | Some r1 \<Rightarrow>
      (case matchPlus isDigit r1 of None \<Rightarrow> None | Some (ds, r2) \<Rightarrow>
       (case matchLit (js '']:'') r2 of None \<Rightarrow> None
        | Some r3 \<Rightarrow> Some (js ''#document[+'' @ ds @ js '']''))))"

text \<open>\<open>/^(\$diff\[\+\d+\<rightarrow>\+\d+\]):/\<close>; the arrow is the code unit 8594 (U+2192).\<close>

definition diffMatch :: "jstring \<Rightarrow> jstring option" where
  "diffMatch line =
     (case matchLit (js ''$diff[+'') line of None \<Rightarrow> None | Some r1 \<Rightarrow>
      (case matchPlus isDigit r1 of None \<Rightarrow> None | Some (ds1, r2) \<Rightarrow>
       (case matchLit (8594 # js ''+'') r2 of None \<Rightarrow> None | Some r3 \<Rightarrow>
        (case matchPlus isDigit r3 of None \<Rightarrow> None | Some (ds2, r4) \<Rightarrow>
         (case matchLit (js '']:'') r4 of None \<Rightarrow> None
          | Some r5 \<Rightarrow> Some (js ''$diff[+'' @ ds1 @ 8594 # js ''+'' @ ds2 @ js '']''))))))"

text \<open>\<open>parseFacetHeader\<close>: \<open>/^@(\w+)\[\d+\]:/\<close>, returning the facet name.\<close>

definition parseFacetHeader :: "jstring \<Rightarrow> jstring option" where
  "parseFacetHeader line =
     (case matchLit (js ''@'') line of None \<Rightarrow> None | Some r1 \<Rightarrow>
      (case matchPlus isWordChar r1 of None \<Rightarrow> None | Some (name, r2) \<Rightarrow>
       (case matchLit (js ''['') r2 of None \<Rightarrow> None | Some r3 \<Rightarrow>
        (case matchPlus isDigit r3 of None \<Rightarrow> None | Some (ds, r4) \<Rightarrow>
         (case matchLit (js '']:'') r4 of None \<Rightarrow> None | Some r5 \<Rightarrow> Some name)))))"

text \<open>
  \<open>isSeparatorRow\<close>: \<open>/^\|[-\s|]+\|$/\<close>. The class contains the pipe, so the line
  matches exactly when it starts and ends with a pipe, has at least one character in
  between, and every character in between is a dash, white space or a pipe.
\<close>

definition isSeparatorRow :: "jstring \<Rightarrow> bool" where
  "isSeparatorRow line \<longleftrightarrow>
     3 \<le> length line \<and> hd line = 124 \<and> last line = 124 \<and>
     list_all (\<lambda>c. c = 45 \<or> isWhiteSpace c \<or> c = 124) (slice_1_m1 line)"

definition isTableRow :: "jstring \<Rightarrow> bool" where
  "isTableRow line \<longleftrightarrow> startsWith line (js ''|'')"

definition parseTableRow :: "jstring \<Rightarrow> jstring list" where
  "parseTableRow line = map trim (split_str 124 (slice_1_m1 (trim line)))"

section \<open>Rows and documents\<close>

text \<open>
  A row is a plain JavaScript object with string values: its own properties, in
  insertion order, as an association list with distinct keys. Reading a property that
  the object does not own falls through to \<open>Object.prototype\<close>, whose twelve members
  are listed here; assigning to a property creates or overwrites an own property, except
  for \<open>__proto__\<close>, whose setter ignores a string.
\<close>

type_synonym row = "(jstring \<times> jstring) list"

definition Object_prototype_functions :: "jstring list" where
  "Object_prototype_functions =
     [js ''constructor'', js ''__defineGetter__'', js ''__defineSetter__'',
      js ''hasOwnProperty'', js ''__lookupGetter__'', js ''__lookupSetter__'',
      js ''isPrototypeOf'', js ''propertyIsEnumerable'', js ''toString'', js ''valueOf'',
      js ''toLocaleString'']"

text \<open>
  \<open>String(row[header] || '')\<close>: the own value; for a name the row does not own, the
  text of the inherited member (a native function prints as
  \<open>function name() { [native code] }\<close>, the prototype object as \<open>[object Object]\<close>),
  and the empty string when there is none.
\<close>

definition cell :: "row \<Rightarrow> jstring \<Rightarrow> jstring" where
  "cell r header =
     (case map_of r header of
        Some v \<Rightarrow> v
      | None \<Rightarrow>
          if header \<in> set Object_prototype_functions then
            js ''function '' @ (if header = js ''constructor'' then js ''Object'' else header)
              @ js ''() { [native code] }''
          else if header = js ''__proto__'' then js ''[object Object]''
          else [])"

text \<open>\<open>row[key] = v\<close>\<close>

definition assign :: "row \<Rightarrow> jstring \<Rightarrow> jstring \<Rightarrow> row" where
  "assign r key v = (if key = js ''__proto__'' then r else AList.update key v r)"

text \<open>
  \<open>Object.keys(row)\<close>: the keys that are array indices (canonical decimal numbers
  below \<open>2 ^ 32 - 1\<close>) in ascending order, then the other keys in insertion order.
\<close>

definition isArrayIndex :: "jstring \<Rightarrow> bool" where
  "isArrayIndex k \<longleftrightarrow>
     k \<noteq> [] \<and> list_all isDigit k \<and> (k = js ''0'' \<or> hd k \<noteq> 48) \<and>
     decimalValue k < 4294967295"

definition Object_keys :: "row \<Rightarrow> jstring list" where
  "Object_keys r =
     sort_key decimalValue (filter isArrayIndex (map fst r))
       @ filter (\<lambda>k. \<not> isArrayIndex k) (map fst r)"

text \<open>
  \<open>TqlDocument\<close>: nine facets, each an object \<open>{rows: [...]}\<close>; the field
  \<open>table_rows d\<close> stands for \<open>d.table.rows\<close>, and so on.
\<close>

record TqlDocument =
  ambiguity_rows :: "row list"
  context_rows :: "row list"
  intent_rows :: "row list"
  meaning_rows :: "row list"
  query_rows :: "row list"
  score_rows :: "row list"
  structure_rows :: "row list"
  table_rows :: "row list"
  tasks_rows :: "row list"

section \<open>Generator\<close>

text \<open>\<open>Math.max(...xs)\<close> on a non-empty list of lengths.\<close>

definition Math_max :: "nat list \<Rightarrow> nat" where
  "Math_max xs = foldr max xs 0"

definition colWidths :: "jstring list \<Rightarrow> row list \<Rightarrow> nat list" where
  "colWidths headers rows =
     map (\<lambda>header.
            max (length header)
                (if length rows > 0 then Math_max (map (\<lambda>r. length (cell r header)) rows)
                 else 0))
         headers"

definition headerRow :: "jstring list \<Rightarrow> nat list \<Rightarrow> jstring" where
  "headerRow headers ws =
     js ''| '' @ join (js '' | '') (map (\<lambda>(h, w). padEnd h w) (zip headers ws)) @ js '' |''"

definition separator :: "nat list \<Rightarrow> jstring" where
  "separator ws = js ''|'' @ join (js ''|'') (map (\<lambda>w. replicate (w + 2) 45) ws) @ js ''|''"

definition dataRow :: "jstring list \<Rightarrow> nat list \<Rightarrow> row \<Rightarrow> jstring" where
  "dataRow headers ws r =
     js ''| '' @ join (js '' | '') (map (\<lambda>(h, w). padEnd (cell r h) w) (zip headers ws))
       @ js '' |''"

text \<open>The facet header \<open>@${facetName}[${rowCount}]:\<close>.\<close>

definition facetHeaderLine :: "jstring \<Rightarrow> nat \<Rightarrow> jstring" where
  "facetHeaderLine facetName rowCount =
     js ''@'' @ facetName @ js ''['' @ Number_toString rowCount @ js '']:''"

text \<open>The array \<open>lines\<close> that \<open>generateTable\<close> builds, and its join.\<close>

definition generateTable_lines ::
  "jstring list \<Rightarrow> row list \<Rightarrow> nat \<Rightarrow> jstring \<Rightarrow> jstring list" where
  "generateTable_lines headers rows rowCount facetName =
     [facetHeaderLine facetName rowCount,
      headerRow headers (colWidths headers rows),
      separator (colWidths headers rows)]
     @ map (dataRow headers (colWidths headers rows)) rows"

definition generateTable :: "jstring list \<Rightarrow> row list \<Rightarrow> nat \<Rightarrow> jstring \<Rightarrow> jstring" where
  "generateTable headers rows rowCount facetName =
     join [10] (generateTable_lines headers rows rowCount facetName)"

text \<open>
  The columns \<open>generateTableSection\<close> renders: the keys of the first table row, or the
  single column \<open>index\<close> when the table has no rows.
\<close>

definition table_headers :: "TqlDocument \<Rightarrow> jstring list" where
  "table_headers d =
     (if length (table_rows d) = 0 then [js ''index''] else Object_keys (hd (table_rows d)))"

definition generateTableSection :: "TqlDocument \<Rightarrow> jstring" where
  "generateTableSection d =
     (if length (table_rows d) = 0 then generateTable [js ''index''] [] 0 (js ''table'')
      else generateTable (Object_keys (hd (table_rows d))) (table_rows d)
             (length (table_rows d)) (js ''table''))"

definition meaning_headers :: "jstring list" where
  "meaning_headers = [js ''index'', js ''column'', js ''definition'']"

definition structure_headers :: "jstring list" where
  "structure_headers =
     [js ''index'', js ''column'', js ''nullAllowed'', js ''dataType'', js ''minValue'',
      js ''maxValue'', js ''format'']"

definition ambiguity_headers :: "jstring list" where
  "ambiguity_headers =
     [js ''index'', js ''query_trigger'', js ''ambiguity_type'', js ''ambiguity_risk'']"

definition intent_headers :: "jstring list" where
  "intent_headers =
     [js ''index'', js ''query_trigger'', js ''clarifying_question'', js ''options'',
      js ''user_response'', js ''user_confirmed'']"

definition context_headers :: "jstring list" where
  "context_headers = [js ''index'', js ''key'', js ''value'']"

definition query_headers :: "jstring list" where
  "query_headers = [js ''index'', js ''user_message'', js ''timestamp_utc'']"

definition tasks_headers :: "jstring list" where
  "tasks_headers = [js ''index'', js ''name'', js ''description'', js ''formula'']"

definition score_headers :: "jstring list" where
  "score_headers = [js ''index'', js ''measure'', js ''value'']"

definition generateMeaningSection :: "TqlDocument \<Rightarrow> jstring" where
  "generateMeaningSection d =
     generateTable meaning_headers (meaning_rows d) (length (meaning_rows d)) (js ''meaning'')"

definition generateStructureSection :: "TqlDocument \<Rightarrow> jstring" where
  "generateStructureSection d =
     generateTable structure_headers (structure_rows d) (length (structure_rows d))
       (js ''structure'')"

definition generateAmbiguitySection :: "TqlDocument \<Rightarrow> jstring" where
  "generateAmbiguitySection d =
     generateTable ambiguity_headers (ambiguity_rows d) (length (ambiguity_rows d))
       (js ''ambiguity'')"

definition generateIntentSection :: "TqlDocument \<Rightarrow> jstring" where
  "generateIntentSection d =
     generateTable intent_headers (intent_rows d) (length (intent_rows d)) (js ''intent'')"

definition generateContextSection :: "TqlDocument \<Rightarrow> jstring" where
  "generateContextSection d =
     generateTable context_headers (context_rows d) (length (context_rows d)) (js ''context'')"

definition generateQuerySection :: "TqlDocument \<Rightarrow> jstring" where
  "generateQuerySection d =
     generateTable query_headers (query_rows d) (length (query_rows d)) (js ''query'')"

definition generateTasksSection :: "TqlDocument \<Rightarrow> jstring" where
  "generateTasksSection d =
     generateTable tasks_headers (tasks_rows d) (length (tasks_rows d)) (js ''tasks'')"

definition generateScoreSection :: "TqlDocument \<Rightarrow> jstring" where
  "generateScoreSection d =
     generateTable score_headers (score_rows d) (length (score_rows d)) (js ''score'')"

definition generateTqlFromJson :: "TqlDocument \<Rightarrow> jstring" where
  "generateTqlFromJson d =
     join [10, 10]
       [generateTableSection d, generateMeaningSection d, generateStructureSection d,
        generateAmbiguitySection d, generateIntentSection d, generateContextSection d,
        generateQuerySection d, generateTasksSection d, generateScoreSection d]"

section \<open>Parser\<close>

text \<open>
  The errors the parser can raise: the \<open>TypeError\<close> of the JavaScript runtime (calling
  a value that is not a function, or a method of \<open>Object.prototype\<close> without a
  receiver), and the \<open>Error\<close> that \<open>parseTqlConversationFromString\<close> throws with the
  message \<open>Conversation header indicates N documents, but found M\<close>, kept here with
  its two numbers.
\<close>

datatype error = TypeError | CountError jsnumber nat

text \<open>
  \<open>FACET_REGISTRY\<close>: an object literal mapping the nine facet names to functions that
  push the row.
\<close>

definition FACET_REGISTRY :: "(jstring \<times> (TqlDocument \<Rightarrow> row \<Rightarrow> TqlDocument)) list" where
  "FACET_REGISTRY =
     [(js ''ambiguity'', \<lambda>d r. d\<lparr>ambiguity_rows := ambiguity_rows d @ [r]\<rparr>),
      (js ''context'', \<lambda>d r. d\<lparr>context_rows := context_rows d @ [r]\<rparr>),
      (js ''intent'', \<lambda>d r. d\<lparr>intent_rows := intent_rows d @ [r]\<rparr>),
      (js ''meaning'', \<lambda>d r. d\<lparr>meaning_rows := meaning_rows d @ [r]\<rparr>),
      (js ''query'', \<lambda>d r. d\<lparr>query_rows := query_rows d @ [r]\<rparr>),
      (js ''score'', \<lambda>d r. d\<lparr>score_rows := score_rows d @ [r]\<rparr>),
      (js ''structure'', \<lambda>d r. d\<lparr>structure_rows := structure_rows d @ [r]\<rparr>),
      (js ''table'', \<lambda>d r. d\<lparr>table_rows := table_rows d @ [r]\<rparr>),
      (js ''tasks'', \<lambda>d r. d\<lparr>tasks_rows := tasks_rows d @ [r]\<rparr>)]"

text \<open>
  \<open>addRowToFacet\<close>: \<open>const addRow = FACET_REGISTRY[facet]; if (addRow) addRow(doc, row)\<close>.
  The registry is a plain object, so a name it does not own is looked up on
  \<open>Object.prototype\<close>. There \<open>constructor\<close> (the function \<open>Object\<close>, which returns
  its argument) and \<open>toString\<close> (which accepts an undefined receiver) return without
  touching the document; the other inherited functions start by converting their
  undefined receiver to an object (the module is strict code) and throw a
  \<open>TypeError\<close>; \<open>__proto__\<close> reads as the prototype object itself, which is truthy but
  not callable, and the call throws a \<open>TypeError\<close>. Any other name reads as
  \<open>undefined\<close> and the row is dropped.
\<close>

definition addRowToFacet :: "TqlDocument \<Rightarrow> jstring \<Rightarrow> row \<Rightarrow> error + TqlDocument" where
  "addRowToFacet d facet r =
     (case map_of FACET_REGISTRY facet of
        Some addRow \<Rightarrow> Inr (addRow d r)
      | None \<Rightarrow>
          if facet = js ''constructor'' \<or> facet = js ''toString'' then Inr d
          else if facet \<in> set Object_prototype_functions \<or> facet = js ''__proto__''
          then Inl TypeError
          else Inr d)"

text \<open>
  The row built from a data line:
  \<open>for (const [j, currentHeader] of currentHeaders.entries()) row[currentHeader] = cells[j] || ''\<close>.
\<close>

definition buildRow :: "jstring list \<Rightarrow> jstring list \<Rightarrow> row" where
  "buildRow currentHeaders cells =
     foldl (\<lambda>r (j, currentHeader).
              assign r currentHeader (if j < length cells then cells ! j else []))
       [] (enumerate 0 currentHeaders)"

text \<open>The local variables of \<open>parseTqlDocumentFromString\<close>, and one turn of its loop.\<close>

record parse_state =
  doc :: TqlDocument
  currentFacet :: "jstring option"
  currentHeaders :: "jstring list"
  inDataSection :: bool
  headerParsed :: bool

definition emptyDocument :: TqlDocument where
  "emptyDocument =
     \<lparr>ambiguity_rows = [], context_rows = [], intent_rows = [], meaning_rows = [],
      query_rows = [], score_rows = [], structure_rows = [], table_rows = [],
      tasks_rows = []\<rparr>"

definition initialState :: parse_state where
  "initialState =
     \<lparr>doc = emptyDocument, currentFacet = None, currentHeaders = [],
      inDataSection = False, headerParsed = False\<rparr>"

definition parseLine :: "parse_state \<Rightarrow> jstring \<Rightarrow> error + parse_state" where
  "parseLine st line' =
     (let line = trim line' in
      if line = [] \<and> length (currentHeaders st) > 0 then
        Inr (st\<lparr>currentHeaders := [], inDataSection := False, headerParsed := False\<rparr>)
      else
        (case parseFacetHeader line of
           Some facetName \<Rightarrow>
             Inr (st\<lparr>currentFacet := Some facetName, inDataSection := True,
                     headerParsed := False, currentHeaders := []\<rparr>)
         | None \<Rightarrow>
             (case currentFacet st of
                None \<Rightarrow> Inr st
              | Some facet \<Rightarrow>
                  if line = [] then Inr st
                  else if isSeparatorRow line then Inr (st\<lparr>headerParsed := True\<rparr>)
                  else if inDataSection st \<and> isTableRow line \<and> \<not> headerParsed st
                          \<and> length (currentHeaders st) = 0
                  then Inr (st\<lparr>currentHeaders := parseTableRow line\<rparr>)
                  else if inDataSection st \<and> headerParsed st \<and> isTableRow line then
                    (case addRowToFacet (doc st) facet
                            (buildRow (currentHeaders st) (parseTableRow line)) of
                       Inl e \<Rightarrow> Inl e
                     | Inr d \<Rightarrow> Inr (st\<lparr>doc := d\<rparr>))
                  else Inr st)))"

fun parseLines :: "parse_state \<Rightarrow> jstring list \<Rightarrow> error + parse_state" where
  "parseLines st [] = Inr st"
| "parseLines st (l # ls) =
     (case parseLine st l of Inl e \<Rightarrow> Inl e | Inr st' \<Rightarrow> parseLines st' ls)"

definition parseTqlDocumentFromString :: "jstring \<Rightarrow> error + TqlDocument" where
  "parseTqlDocumentFromString content =
     (case parseLines initialState (split_str 10 content) of
        Inl e \<Rightarrow> Inl e
      | Inr st \<Rightarrow> Inr (doc st))"

section \<open>Conversation parser\<close>

text \<open>
  An entry of the sequence is a one-key object \<open>{[key]: value}\<close>; the parser only ever
  pushes entries whose value is a document.
\<close>

type_synonym sequence_item = "jstring \<times> TqlDocument"

record TqlConversation =
  sequence :: "sequence_item list"

definition addItemToSequence ::
  "sequence_item list \<Rightarrow> jstring \<Rightarrow> jstring \<Rightarrow> error + sequence_item list" where
  "addItemToSequence sq key content =
     (if startsWith key (js ''#document'') then
        (case parseTqlDocumentFromString content of
           Inl e \<Rightarrow> Inl e
         | Inr d \<Rightarrow> Inr (sq @ [(key, d)]))
      else if startsWith key (js ''$diff'') then Inr sq
      else Inr sq)"

text \<open>
  \<open>if (currentItemKey && currentItemContent.length > 0) addItemToSequence(...)\<close>, the
  flush that precedes every new header and follows the loop.
\<close>

definition saveItem ::
  "sequence_item list \<Rightarrow> jstring option \<Rightarrow> jstring list \<Rightarrow> error + sequence_item list" where
  "saveItem sq currentItemKey currentItemContent =
     (case currentItemKey of
        None \<Rightarrow> Inr sq
      | Some key \<Rightarrow>
          if length currentItemContent > 0
          then addItemToSequence sq key (join [10] currentItemContent)
          else Inr sq)"

text \<open>
  The loop over \<open>lines[1..]\<close>, with its variables \<open>sequence\<close>, \<open>currentItemKey\<close> and
  \<open>currentItemContent\<close>; it ends with the flush of the last item.
\<close>

fun conversationLoop ::
  "sequence_item list \<Rightarrow> jstring option \<Rightarrow> jstring list \<Rightarrow> jstring list
     \<Rightarrow> error + sequence_item list" where
  "conversationLoop sq key content [] = saveItem sq key content"
| "conversationLoop sq key content (line # ls) =
     (case docMatch line of
        Some k \<Rightarrow>
          (case saveItem sq key content of
             Inl e \<Rightarrow> Inl e
           | Inr sq' \<Rightarrow> conversationLoop sq' (Some k) [] ls)
      | None \<Rightarrow>
          (case diffMatch line of
             Some k \<Rightarrow>
               (case saveItem sq key content of
                  Inl e \<Rightarrow> Inl e
                | Inr sq' \<Rightarrow> conversationLoop sq' (Some k) [] ls)
           | None \<Rightarrow>
               if key \<noteq> None then conversationLoop sq key (content @ [line]) ls
               else conversationLoop sq key content ls))"

definition actualDocCount :: "sequence_item list \<Rightarrow> nat" where
  "actualDocCount sq = length (filter (\<lambda>item. startsWith (fst item) (js ''#document'')) sq)"

definition parseTqlConversationFromString :: "jstring \<Rightarrow> error + TqlConversation" where
  "parseTqlConversationFromString content =
     (let lines = split_str 10 content in
      case conversationMatch (hd lines) of
        None \<Rightarrow>
          (case parseTqlDocumentFromString content of
             Inl e \<Rightarrow> Inl e
           | Inr d \<Rightarrow> Inr \<lparr>sequence = [(js ''#document[+0]'', d)]\<rparr>)
      | Some ds \<Rightarrow>
          (case conversationLoop [] None [] (tl lines) of
             Inl e \<Rightarrow> Inl e
           | Inr sq \<Rightarrow>
               if Num (actualDocCount sq) \<noteq> Number_parseInt ds
               then Inl (CountError (Number_parseInt ds) (actualDocCount sq))
               else Inr \<lparr>sequence = sq\<rparr>))"

section \<open>Row operations and diff\<close>

text \<open>
  Modelled from the spec: the row operations \<open>updateRowInMemory\<close> and
  \<open>insertRowInMemory\<close> (\<open>lib/operations/crud.ts\<close> is not among the sources). A facet is
  addressed by its name; the index is 1-based; \<open>updateRow\<close> merges the fields of the
  patch into the row at that position and fails with \<open>IndexError\<close> outside
  \<open>[1, rowCount]\<close>; \<open>insertRow\<close> appends the row at the end.
\<close>

datatype FacetName =
  Table | Meaning | Structure | Ambiguity | Intent | Context | Query | Tasks | Score

datatype operation_error = IndexError | DatasetMismatchError

fun facetRows :: "TqlDocument \<Rightarrow> FacetName \<Rightarrow> row list" where
  "facetRows d Table = table_rows d"
| "facetRows d Meaning = meaning_rows d"
| "facetRows d Structure = structure_rows d"
| "facetRows d Ambiguity = ambiguity_rows d"
| "facetRows d Intent = intent_rows d"
| "facetRows d Context = context_rows d"
| "facetRows d Query = query_rows d"
| "facetRows d Tasks = tasks_rows d"
| "facetRows d Score = score_rows d"

fun setFacetRows :: "TqlDocument \<Rightarrow> FacetName \<Rightarrow> row list \<Rightarrow> TqlDocument" where
  "setFacetRows d Table rs = d\<lparr>table_rows := rs\<rparr>"
| "setFacetRows d Meaning rs = d\<lparr>meaning_rows := rs\<rparr>"
| "setFacetRows d Structure rs = d\<lparr>structure_rows := rs\<rparr>"
| "setFacetRows d Ambiguity rs = d\<lparr>ambiguity_rows := rs\<rparr>"
| "setFacetRows d Intent rs = d\<lparr>intent_rows := rs\<rparr>"
| "setFacetRows d Context rs = d\<lparr>context_rows := rs\<rparr>"
| "setFacetRows d Query rs = d\<lparr>query_rows := rs\<rparr>"
| "setFacetRows d Tasks rs = d\<lparr>tasks_rows := rs\<rparr>"
| "setFacetRows d Score rs = d\<lparr>score_rows := rs\<rparr>"

text \<open>Modelled from the spec: merging the fields of a patch into a row.\<close>

definition mergePatch :: "row \<Rightarrow> row \<Rightarrow> row" where
  "mergePatch r patch = foldl (\<lambda>acc (k, v). AList.update k v acc) r patch"

text \<open>Modelled from the spec: \<open>updateRow(doc, facet, index, patch)\<close>.\<close>

definition updateRowInMemory ::
  "TqlDocument \<Rightarrow> FacetName \<Rightarrow> int \<Rightarrow> row \<Rightarrow> operation_error + TqlDocument" where
  "updateRowInMemory d facet index patch =
     (if index < 1 \<or> index > int (length (facetRows d facet)) then Inl IndexError
      else Inr (setFacetRows d facet
                  ((facetRows d facet)
                     [nat (index - 1) := mergePatch (facetRows d facet ! nat (index - 1)) patch])))"

text \<open>Modelled from the spec: \<open>insertRow(doc, facet, row)\<close>.\<close>

definition insertRowInMemory :: "TqlDocument \<Rightarrow> FacetName \<Rightarrow> row \<Rightarrow> TqlDocument" where
  "insertRowInMemory d facet r = setFacetRows d facet (facetRows d facet @ [r])"

text \<open>
  Modelled from the spec: the diff engine \<open>diffTqlDocuments\<close>
  (\<open>lib/operations/diff.ts\<close> is not among the sources). The table facets must be
  identical, or the diff fails with \<open>DatasetMismatchError\<close>; the other eight facets are
  compared row by row, by 1-based position.
\<close>

datatype ChangeType = added | removed | modified | unchanged

record RowChange =
  rc_index :: nat
  changeType :: ChangeType
  before :: "row option"
  after :: "row option"

record FacetDiff =
  facet :: FacetName
  status :: ChangeType
  changes :: "RowChange list"

record TqlDiff =
  facets :: "FacetDiff list"
  facetsModified :: nat
  facetsUnchanged :: nat
  totalRowChanges :: nat

fun diffRows :: "nat \<Rightarrow> row list \<Rightarrow> row list \<Rightarrow> RowChange list" where
  "diffRows i [] [] = []"
| "diffRows i (b # bs) [] =
     \<lparr>rc_index = i, changeType = removed, before = Some b, after = None\<rparr> # diffRows (i + 1) bs []"
| "diffRows i [] (a # as) =
     \<lparr>rc_index = i, changeType = added, before = None, after = Some a\<rparr> # diffRows (i + 1) [] as"
| "diffRows i (b # bs) (a # as) =
     (if b = a then diffRows (i + 1) bs as
      else \<lparr>rc_index = i, changeType = modified, before = Some b, after = Some a\<rparr>
             # diffRows (i + 1) bs as)"

definition diffFacet :: "TqlDocument \<Rightarrow> TqlDocument \<Rightarrow> FacetName \<Rightarrow> FacetDiff" where
  "diffFacet b a f =
     (let cs = diffRows 1 (facetRows b f) (facetRows a f) in
      \<lparr>facet = f,
       status = (if cs = [] then unchanged
                 else if facetRows b f = [] then added
                 else if facetRows a f = [] then removed
                 else modified),
       changes = cs\<rparr>)"

definition semanticFacets :: "FacetName list" where
  "semanticFacets = [Meaning, Structure, Ambiguity, Intent, Context, Query, Tasks, Score]"

definition computeDiff :: "TqlDocument \<Rightarrow> TqlDocument \<Rightarrow> TqlDiff" where
  "computeDiff b a =
     (let fs = map (diffFacet b a) semanticFacets in
      \<lparr>facets = fs,
       facetsModified = length (filter (\<lambda>fd. status fd \<noteq> unchanged) fs),
       facetsUnchanged = length (filter (\<lambda>fd. status fd = unchanged) fs),
       totalRowChanges = sum_list (map (\<lambda>fd. length (changes fd)) fs)\<rparr>)"

definition diffTqlDocuments :: "TqlDocument \<Rightarrow> TqlDocument \<Rightarrow> operation_error + TqlDiff" where
  "diffTqlDocuments b a =
     (if table_rows b \<noteq> table_rows a then Inl DatasetMismatchError
      else Inr (computeDiff b a))"

text \<open>Modelled from the spec: the message of an error, where the spec gives one.\<close>

definition errorMessage :: "operation_error \<Rightarrow> jstring option" where
  "errorMessage e =
     (case e of
        DatasetMismatchError \<Rightarrow>
          Some (js ''DIFF operations can only be performed on matching datasets'')
      | IndexError \<Rightarrow> None)"

section \<open>Notions used in the statements\<close>

text \<open>The lines of a rendered facet below its header line, joined.\<close>

definition tableBody :: "jstring list \<Rightarrow> row list \<Rightarrow> jstring" where
  "tableBody hs rows =
     join [10]
       (headerRow hs (colWidths hs rows) # separator (colWidths hs rows)
          # map (dataRow hs (colWidths hs rows)) rows)"

text \<open>
  A cell or column name is clean when it holds no pipe and no line feed, the two
  characters the text format gives a meaning to.
\<close>

definition cleanText :: "jstring \<Rightarrow> bool" where
  "cleanText s \<longleftrightarrow> list_all (\<lambda>c. c \<noteq> 124 \<and> c \<noteq> 10) s"

text \<open>
  A row is separator-like for a list of columns when each of its rendered cells is made
  of dashes, white space and pipes only: its rendered line is then one that
  \<open>isSeparatorRow\<close> accepts.
\<close>

definition isSeparatorLike :: "jstring list \<Rightarrow> row \<Rightarrow> bool" where
  "isSeparatorLike hs r \<longleftrightarrow>
     list_all (\<lambda>h. list_all (\<lambda>c. c = 45 \<or> isWhiteSpace c \<or> c = 124) (cell r h)) hs"

definition allEmpty :: "jstring list \<Rightarrow> row \<Rightarrow> bool" where
  "allEmpty hs r \<longleftrightarrow> list_all (\<lambda>h. cell r h = []) hs"

text \<open>
  Column names the parser reads back as they are: at least one, distinct, clean, without
  outer white space, none of them \<open>__proto__\<close>, and not all made of dashes and white space
  (or the header row would be taken for a separator row).
\<close>

definition wellFormedHeaders :: "jstring list \<Rightarrow> bool" where
  "wellFormedHeaders hs \<longleftrightarrow>
     hs \<noteq> [] \<and> distinct hs \<and>
     list_all (\<lambda>h. cleanText h \<and> trim h = h \<and> h \<noteq> js ''__proto__'') hs \<and>
     \<not> list_all (\<lambda>h. list_all (\<lambda>c. c = 45 \<or> isWhiteSpace c \<or> c = 124) h) hs"

definition renderable :: "jstring list \<Rightarrow> row list \<Rightarrow> bool" where
  "renderable hs rows \<longleftrightarrow> list_all (\<lambda>r. list_all (\<lambda>h. cleanText (cell r h)) hs) rows"

definition renderableDocument :: "TqlDocument \<Rightarrow> bool" where
  "renderableDocument d \<longleftrightarrow>
     wellFormedHeaders (table_headers d) \<and>
     renderable (table_headers d) (table_rows d) \<and>
     renderable meaning_headers (meaning_rows d) \<and>
     renderable structure_headers (structure_rows d) \<and>
     renderable ambiguity_headers (ambiguity_rows d) \<and>
     renderable intent_headers (intent_rows d) \<and>
     renderable context_headers (context_rows d) \<and>
     renderable query_headers (query_rows d) \<and>
     renderable tasks_headers (tasks_rows d) \<and>
     renderable score_headers (score_rows d)"

text \<open>
  What comes back from rendering and parsing a facet: the rows that are not
  separator-like, each with the facet's columns and the trimmed cell texts.
\<close>

definition roundTripRows :: "jstring list \<Rightarrow> row list \<Rightarrow> row list" where
  "roundTripRows hs rows =
     map (\<lambda>r. map (\<lambda>h. (h, trim (cell r h))) hs) (filter (\<lambda>r. \<not> isSeparatorLike hs r) rows)"

definition roundTripDocument :: "TqlDocument \<Rightarrow> TqlDocument" where
  "roundTripDocument d =
     \<lparr>ambiguity_rows = roundTripRows ambiguity_headers (ambiguity_rows d),
      context_rows = roundTripRows context_headers (context_rows d),
      intent_rows = roundTripRows intent_headers (intent_rows d),
      meaning_rows = roundTripRows meaning_headers (meaning_rows d),
      query_rows = roundTripRows query_headers (query_rows d),
      score_rows = roundTripRows score_headers (score_rows d),
      structure_rows = roundTripRows structure_headers (structure_rows d),
      table_rows = roundTripRows (table_headers d) (table_rows d),
      tasks_rows = roundTripRows tasks_headers (tasks_rows d)\<rparr>"

text \<open>The nine facets of a document with their rendered columns, in the order of the text.\<close>

definition facetTables :: "TqlDocument \<Rightarrow> (jstring \<times> jstring list \<times> row list) list" where
  "facetTables d =
     [(js ''table'', table_headers d, table_rows d),
      (js ''meaning'', meaning_headers, meaning_rows d),
      (js ''structure'', structure_headers, structure_rows d),
      (js ''ambiguity'', ambiguity_headers, ambiguity_rows d),
      (js ''intent'', intent_headers, intent_rows d),
      (js ''context'', context_headers, context_rows d),
      (js ''query'', query_headers, query_rows d),
      (js ''tasks'', tasks_headers, tasks_rows d),
      (js ''score'', score_headers, score_rows d)]"

text \<open>
  A row is stored exactly when it owns the facet's columns in their order, its values
  have no outer white space, and it is not separator-like.
\<close>

definition exactRows :: "jstring list \<Rightarrow> row list \<Rightarrow> bool" where
  "exactRows hs rows \<longleftrightarrow>
     list_all (\<lambda>r. map fst r = hs \<and> list_all (\<lambda>kv. trim (snd kv) = snd kv) r
                  \<and> \<not> isSeparatorLike hs r) rows"

definition exactDocument :: "TqlDocument \<Rightarrow> bool" where
  "exactDocument d \<longleftrightarrow> list_all (\<lambda>(name, hs, rows). exactRows hs rows) (facetTables d)"

text \<open>
  The document sections of a conversation body that have a body of their own: a
  \<open>#document[+n]:\<close> header line followed by at least one line that is not itself a
  document or diff header.
\<close>

fun nonEmptyDocumentSections :: "jstring list \<Rightarrow> nat" where
  "nonEmptyDocumentSections [] = 0"
| "nonEmptyDocumentSections [l] = 0"
| "nonEmptyDocumentSections (l # l' # ls) =
     (if docMatch l \<noteq> None \<and> docMatch l' = None \<and> diffMatch l' = None then 1 else 0)
       + nonEmptyDocumentSections (l' # ls)"

text \<open>The document header lines of a conversation body.\<close>

definition documentHeaderLines :: "jstring list \<Rightarrow> nat" where
  "documentHeaderLines ls = length (filter (\<lambda>l. docMatch l \<noteq> None) ls)"

text \<open>
  The facet names on which \<open>addRowToFacet\<close> raises: the members of
  \<open>Object.prototype\<close> other than \<open>constructor\<close> and \<open>toString\<close>.
\<close>

definition raisingNames :: "jstring list" where
  "raisingNames =
     js ''__proto__''
       # filter (\<lambda>n. n \<noteq> js ''constructor'' \<and> n \<noteq> js ''toString'') Object_prototype_functions"

text \<open>
  The document that the loop variables hold and that will still be stored: the current
  key is a document key and a body line has been or is about to be collected.
\<close>

definition pendingDocument :: "jstring option \<Rightarrow> jstring list \<Rightarrow> jstring list \<Rightarrow> nat" where
  "pendingDocument key content ls =
     (case key of None \<Rightarrow> 0
      | Some k \<Rightarrow>
          if startsWith k (js ''#document'') \<and>
             (content \<noteq> [] \<or> (ls \<noteq> [] \<and> docMatch (hd ls) = None \<and> diffMatch (hd ls) = None))
          then 1 else 0)"

text \<open>
  The document sections of a conversation body: for every \<open>#document[+n]:\<close> header
  line, its key and the lines that follow it up to the next document or diff header.
\<close>

fun documentSections :: "jstring list \<Rightarrow> (jstring \<times> jstring list) list" where
  "documentSections [] = []"
| "documentSections (l # ls) =
     (case docMatch l of
        Some k \<Rightarrow>
          (k, takeWhile (\<lambda>l'. docMatch l' = None \<and> diffMatch l' = None) ls) # documentSections ls
      | None \<Rightarrow> documentSections ls)"

text \<open>
  The lines of a conversation body without its diff sections: a \<open>$diff[+i\<rightarrow>+j]:\<close> header
  line and the lines that follow it up to the next document or diff header are left
  out. The flag tells whether the lines met belong to a diff section.
\<close>

fun withoutDiffSections :: "bool \<Rightarrow> jstring list \<Rightarrow> jstring list" where
  "withoutDiffSections inDiff [] = []"
| "withoutDiffSections inDiff (l # ls) =
     (if docMatch l \<noteq> None then l # withoutDiffSections False ls
      else if diffMatch l \<noteq> None then withoutDiffSections True ls
      else if inDiff then withoutDiffSections True ls
      else l # withoutDiffSections False ls)"

section \<open>Evaluation and string lemmas\<close>

lemmas eval_defs = parseTqlDocumentFromString_def parseLine_def initialState_def emptyDocument_def
  trim_def parseFacetHeader_def matchLit_def matchPlus_def startsWith_def isWordChar_def isDigit_def
  isWhiteSpace_def isSeparatorRow_def isTableRow_def parseTableRow_def slice_1_m1_def buildRow_def
  assign_def addRowToFacet_def FACET_REGISTRY_def Object_prototype_functions_def

lemma join_Cons: "join sep (x # xs) = x @ concat (map (\<lambda>y. sep @ y) xs)"
  by (induction xs arbitrary: x) auto

lemma generateTable_shape:
  "generateTable hs rows n name = facetHeaderLine name n @ [10] @ tableBody hs rows"
  by (simp add: generateTable_def generateTable_lines_def tableBody_def join_Cons)

lemmas gen_defs = tableBody_def headerRow_def separator_def colWidths_def padEnd_def
  meaning_headers_def structure_headers_def ambiguity_headers_def intent_headers_def
  context_headers_def query_headers_def tasks_headers_def score_headers_def

lemma emptyBodies:
  "tableBody [js ''index''] [] = js ''| index |'' @ [10] @ js ''|-------|''"
  "tableBody meaning_headers [] =
     js ''| index | column | definition |'' @ [10] @ js ''|-------|--------|------------|''"
  "tableBody structure_headers [] =
     js ''| index | column | nullAllowed | dataType | minValue | maxValue | format |'' @ [10]
     @ js ''|-------|--------|-------------|----------|----------|----------|--------|''"
  "tableBody ambiguity_headers [] =
     js ''| index | query_trigger | ambiguity_type | ambiguity_risk |'' @ [10]
     @ js ''|-------|---------------|----------------|----------------|''"
  "tableBody intent_headers [] =
     js ''| index | query_trigger | clarifying_question | options | user_response | user_confirmed |''
     @ [10]
     @ js ''|-------|---------------|---------------------|---------|---------------|----------------|''"
  "tableBody context_headers [] =
     js ''| index | key | value |'' @ [10] @ js ''|-------|-----|-------|''"
  "tableBody query_headers [] =
     js ''| index | user_message | timestamp_utc |'' @ [10]
     @ js ''|-------|--------------|---------------|''"
  "tableBody tasks_headers [] =
     js ''| index | name | description | formula |'' @ [10]
     @ js ''|-------|------|-------------|---------|''"
  "tableBody score_headers [] =
     js ''| index | measure | value |'' @ [10] @ js ''|-------|---------|-------|''"
  by (simp_all add: gen_defs)

lemma generateTqlFromJson_sections:
  "generateTqlFromJson d =
     facetHeaderLine (js ''table'') (length (table_rows d)) @ [10]
       @ tableBody (table_headers d) (table_rows d) @ [10, 10] @
     facetHeaderLine (js ''meaning'') (length (meaning_rows d)) @ [10]
       @ tableBody meaning_headers (meaning_rows d) @ [10, 10] @
     facetHeaderLine (js ''structure'') (length (structure_rows d)) @ [10]
       @ tableBody structure_headers (structure_rows d) @ [10, 10] @
     facetHeaderLine (js ''ambiguity'') (length (ambiguity_rows d)) @ [10]
       @ tableBody ambiguity_headers (ambiguity_rows d) @ [10, 10] @
     facetHeaderLine (js ''intent'') (length (intent_rows d)) @ [10]
       @ tableBody intent_headers (intent_rows d) @ [10, 10] @
     facetHeaderLine (js ''context'') (length (context_rows d)) @ [10]
       @ tableBody context_headers (context_rows d) @ [10, 10] @
     facetHeaderLine (js ''query'') (length (query_rows d)) @ [10]
       @ tableBody query_headers (query_rows d) @ [10, 10] @
     facetHeaderLine (js ''tasks'') (length (tasks_rows d)) @ [10]
       @ tableBody tasks_headers (tasks_rows d) @ [10, 10] @
     facetHeaderLine (js ''score'') (length (score_rows d)) @ [10]
       @ tableBody score_headers (score_rows d)"
proof -
  have t: "generateTableSection d =
      facetHeaderLine (js ''table'') (length (table_rows d)) @ [10]
        @ tableBody (table_headers d) (table_rows d)"
    by (cases "table_rows d") (simp_all add: generateTableSection_def table_headers_def generateTable_shape)
  show ?thesis
    unfolding generateTqlFromJson_def
    by (simp only: join.simps t generateMeaningSection_def generateStructureSection_def
        generateAmbiguitySection_def generateIntentSection_def generateContextSection_def
        generateQuerySection_def generateTasksSection_def generateScoreSection_def
        generateTable_shape append_assoc)
qed


section \<open>The generator emits every facet\<close>

text \<open>
  The count in a facet header is the number of rows in decimal: the digits printed,
  read as a decimal numeral, give the number back.
\<close>

lemma decimalValue_snoc: "decimalValue (ds @ [c]) = 10 * decimalValue ds + (c - 48)"
  by (simp add: decimalValue_def)

lemma decimalValue_Number_toString: "decimalValue (Number_toString n) = n"
proof (induction n rule: Number_toString.induct)
  case (1 n)
  show ?case
  proof (cases "n < 10")
    case True
    then show ?thesis
      by (subst Number_toString.simps) (simp add: decimalValue_def)
  next
    case False
    with 1 have "decimalValue (Number_toString (n div 10)) = n div 10"
      by simp
    with False show ?thesis
      by (subst Number_toString.simps) (simp add: decimalValue_snoc)
  qed
qed

text \<open>
  Claim C5. For every document, \<open>generateTqlFromJson\<close> emits the nine facet sections in
  the order table, meaning, structure, ambiguity, intent, context, query, tasks, score,
  each opened by its header, the text \<open>@\<close>, the facet's name, \<open>[\<close>, the number of its
  rows in decimal, \<open>]:\<close>, and separated from the next by a blank line; a facet without
  rows still gets its header \<open>@facet[0]:\<close>, its column header row (the single column
  \<open>index\<close> for the table facet) and the dashed separator row.
\<close>

theorem C5_all_nine_facets_emitted:
  "\<exists>b1 b2 b3 b4 b5 b6 b7 b8 b9.
     generateTqlFromJson d =
       js ''@table['' @ Number_toString (length (table_rows d)) @ js '']:'' @ [10] @ b1 @ [10, 10] @
       js ''@meaning['' @ Number_toString (length (meaning_rows d)) @ js '']:'' @ [10] @ b2 @ [10, 10] @
       js ''@structure['' @ Number_toString (length (structure_rows d)) @ js '']:'' @ [10] @ b3 @ [10, 10] @
       js ''@ambiguity['' @ Number_toString (length (ambiguity_rows d)) @ js '']:'' @ [10] @ b4 @ [10, 10] @
       js ''@intent['' @ Number_toString (length (intent_rows d)) @ js '']:'' @ [10] @ b5 @ [10, 10] @
       js ''@context['' @ Number_toString (length (context_rows d)) @ js '']:'' @ [10] @ b6 @ [10, 10] @
       js ''@query['' @ Number_toString (length (query_rows d)) @ js '']:'' @ [10] @ b7 @ [10, 10] @
       js ''@tasks['' @ Number_toString (length (tasks_rows d)) @ js '']:'' @ [10] @ b8 @ [10, 10] @
       js ''@score['' @ Number_toString (length (score_rows d)) @ js '']:'' @ [10] @ b9
     \<and> (table_rows d = [] \<longrightarrow> b1 = js ''| index |'' @ [10] @ js ''|-------|'')
     \<and> (meaning_rows d = [] \<longrightarrow>
          b2 = js ''| index | column | definition |'' @ [10]
               @ js ''|-------|--------|------------|'')
     \<and> (structure_rows d = [] \<longrightarrow>
          b3 = js ''| index | column | nullAllowed | dataType | minValue | maxValue | format |''
               @ [10]
               @ js ''|-------|--------|-------------|----------|----------|----------|--------|'')
     \<and> (ambiguity_rows d = [] \<longrightarrow>
          b4 = js ''| index | query_trigger | ambiguity_type | ambiguity_risk |'' @ [10]
               @ js ''|-------|---------------|----------------|----------------|'')
     \<and> (intent_rows d = [] \<longrightarrow>
          b5 = js ''| index | query_trigger | clarifying_question | options | user_response | user_confirmed |''
               @ [10]
               @ js ''|-------|---------------|---------------------|---------|---------------|----------------|'')
     \<and> (context_rows d = [] \<longrightarrow>
          b6 = js ''| index | key | value |'' @ [10] @ js ''|-------|-----|-------|'')
     \<and> (query_rows d = [] \<longrightarrow>
          b7 = js ''| index | user_message | timestamp_utc |'' @ [10]
               @ js ''|-------|--------------|---------------|'')
     \<and> (tasks_rows d = [] \<longrightarrow>
          b8 = js ''| index | name | description | formula |'' @ [10]
               @ js ''|-------|------|-------------|---------|'')
     \<and> (score_rows d = [] \<longrightarrow>
          b9 = js ''| index | measure | value |'' @ [10] @ js ''|-------|---------|-------|'')"
proof -
  have e1: "table_rows d = [] \<Longrightarrow>
      tableBody (table_headers d) [] = js ''| index |'' @ [10] @ js ''|-------|''"
    using emptyBodies(1) by (simp add: table_headers_def)
  show ?thesis
    apply (rule exI [where x = "tableBody (table_headers d) (table_rows d)"])
    apply (rule exI [where x = "tableBody meaning_headers (meaning_rows d)"])
    apply (rule exI [where x = "tableBody structure_headers (structure_rows d)"])
    apply (rule exI [where x = "tableBody ambiguity_headers (ambiguity_rows d)"])
    apply (rule exI [where x = "tableBody intent_headers (intent_rows d)"])
    apply (rule exI [where x = "tableBody context_headers (context_rows d)"])
    apply (rule exI [where x = "tableBody query_headers (query_rows d)"])
    apply (rule exI [where x = "tableBody tasks_headers (tasks_rows d)"])
    apply (rule exI [where x = "tableBody score_headers (score_rows d)"])
    apply (intro conjI impI)
             apply (simp only: generateTqlFromJson_sections facetHeaderLine_def append_assoc)
             apply simp
            apply (simp add: e1)
           apply (simp add: emptyBodies)+
    done
qed

lemma facetHeaderLine_0: "facetHeaderLine name 0 = js ''@'' @ name @ js ''[0]:''"
  by (simp add: facetHeaderLine_def Number_toString.simps)

text \<open>The empty document renders as nine empty sections.\<close>

theorem C5_witness:
  "generateTqlFromJson emptyDocument =
     js ''@table[0]:'' @ [10] @ js ''| index |'' @ [10] @ js ''|-------|'' @ [10, 10] @
     js ''@meaning[0]:'' @ [10] @ js ''| index | column | definition |'' @ [10]
       @ js ''|-------|--------|------------|'' @ [10, 10] @
     js ''@structure[0]:'' @ [10]
       @ js ''| index | column | nullAllowed | dataType | minValue | maxValue | format |'' @ [10]
       @ js ''|-------|--------|-------------|----------|----------|----------|--------|''
       @ [10, 10] @
     js ''@ambiguity[0]:'' @ [10]
       @ js ''| index | query_trigger | ambiguity_type | ambiguity_risk |'' @ [10]
       @ js ''|-------|---------------|----------------|----------------|'' @ [10, 10] @
     js ''@intent[0]:'' @ [10]
       @ js ''| index | query_trigger | clarifying_question | options | user_response | user_confirmed |''
       @ [10]
       @ js ''|-------|---------------|---------------------|---------|---------------|----------------|''
       @ [10, 10] @
     js ''@context[0]:'' @ [10] @ js ''| index | key | value |'' @ [10]
       @ js ''|-------|-----|-------|'' @ [10, 10] @
     js ''@query[0]:'' @ [10] @ js ''| index | user_message | timestamp_utc |'' @ [10]
       @ js ''|-------|--------------|---------------|'' @ [10, 10] @
     js ''@tasks[0]:'' @ [10] @ js ''| index | name | description | formula |'' @ [10]
       @ js ''|-------|------|-------------|---------|'' @ [10, 10] @
     js ''@score[0]:'' @ [10] @ js ''| index | measure | value |'' @ [10]
       @ js ''|-------|---------|-------|''"
proof -
  from C5_all_nine_facets_emitted [of emptyDocument]
  obtain b1 b2 b3 b4 b5 b6 b7 b8 b9 where
    g: "generateTqlFromJson emptyDocument =
       js ''@table['' @ Number_toString 0 @ js '']:'' @ [10] @ b1 @ [10, 10] @
       js ''@meaning['' @ Number_toString 0 @ js '']:'' @ [10] @ b2 @ [10, 10] @
       js ''@structure['' @ Number_toString 0 @ js '']:'' @ [10] @ b3 @ [10, 10] @
       js ''@ambiguity['' @ Number_toString 0 @ js '']:'' @ [10] @ b4 @ [10, 10] @
       js ''@intent['' @ Number_toString 0 @ js '']:'' @ [10] @ b5 @ [10, 10] @
       js ''@context['' @ Number_toString 0 @ js '']:'' @ [10] @ b6 @ [10, 10] @
       js ''@query['' @ Number_toString 0 @ js '']:'' @ [10] @ b7 @ [10, 10] @
       js ''@tasks['' @ Number_toString 0 @ js '']:'' @ [10] @ b8 @ [10, 10] @
       js ''@score['' @ Number_toString 0 @ js '']:'' @ [10] @ b9"
    and b: "b1 = js ''| index |'' @ [10] @ js ''|-------|''"
      "b2 = js ''| index | column | definition |'' @ [10] @ js ''|-------|--------|------------|''"
      "b3 = js ''| index | column | nullAllowed | dataType | minValue | maxValue | format |''
               @ [10]
               @ js ''|-------|--------|-------------|----------|----------|----------|--------|''"
      "b4 = js ''| index | query_trigger | ambiguity_type | ambiguity_risk |'' @ [10]
               @ js ''|-------|---------------|----------------|----------------|''"
      "b5 = js ''| index | query_trigger | clarifying_question | options | user_response | user_confirmed |''
               @ [10]
               @ js ''|-------|---------------|---------------------|---------|---------------|----------------|''"
      "b6 = js ''| index | key | value |'' @ [10] @ js ''|-------|-----|-------|''"
      "b7 = js ''| index | user_message | timestamp_utc |'' @ [10]
               @ js ''|-------|--------------|---------------|''"
      "b8 = js ''| index | name | description | formula |'' @ [10]
               @ js ''|-------|------|-------------|---------|''"
      "b9 = js ''| index | measure | value |'' @ [10] @ js ''|-------|---------|-------|''"
    by (auto simp: emptyDocument_def)
  show ?thesis
    unfolding g b by (simp add: Number_toString.simps)
qed

section \<open>Facet names the registry does not own\<close>

text \<open>
  A facet name that is neither a key of the registry nor a member of
  \<open>Object.prototype\<close> is skipped without an error, as in the text below with the facet
  \<open>notes\<close>.
\<close>

lemma addRowToFacet_unknown:
  "map_of FACET_REGISTRY f = None \<Longrightarrow> f \<notin> set Object_prototype_functions \<Longrightarrow>
   f \<noteq> js ''__proto__'' \<Longrightarrow> addRowToFacet d f r = Inr d"
  by (simp add: addRowToFacet_def)

lemma unknown_facet_rows_dropped:
  "parseTqlDocumentFromString
     (js ''@notes[1]:'' @ [10] @ js ''| a |'' @ [10] @ js ''|---|'' @ [10] @ js ''| 1 |'')
   = Inr emptyDocument"
  by (simp add: eval_defs)

text \<open>
  Claim C7. A facet header whose name is not one of the nine known facets should have its
  data rows ignored, without an error. For the name \<open>__proto__\<close> the lookup
  \<open>FACET_REGISTRY[facet]\<close> yields the prototype object, which passes the guard
  \<open>if (addRow)\<close> and is then called: the first data row of the facet raises a
  \<open>TypeError\<close>.
\<close>

theorem C7_inherited_facet_name_throws:
  "parseTqlDocumentFromString
     (js ''@__proto__[1]:'' @ [10] @ js ''| a |'' @ [10] @ js ''|---|'' @ [10] @ js ''| 1 |'')
   = Inl TypeError"
  by (simp add: eval_defs)

text \<open>
  Claim C9. \<open>parseTqlDocumentFromString\<close> should return a document for every input
  string. On the text below, a table facet followed by a facet named \<open>__proto__\<close>,
  it raises a \<open>TypeError\<close> instead: the value read from the registry is the
  prototype object, which is called. A line that only resembles a header, such as
  \<open>@table25:\<close>, is ordinary content and raises nothing.
\<close>

theorem C9_parse_raises_on_inherited_name:
  "parseTqlDocumentFromString
     (js ''@table[1]:'' @ [10] @ js ''| id |'' @ [10] @ js ''|----|'' @ [10] @ js ''| 1  |''
      @ [10, 10] @
      js ''@__proto__[1]:'' @ [10] @ js ''| a |'' @ [10] @ js ''|---|'' @ [10] @ js ''| 1 |'')
   = Inl TypeError"
  by (simp add: eval_defs)

lemma near_miss_header_is_content:
  "parseTqlDocumentFromString
     (js ''@table25:'' @ [10] @ js ''| id |'' @ [10] @ js ''|----|'' @ [10] @ js ''| 1  |'')
   = Inr emptyDocument"
  by (simp add: eval_defs)

text \<open>
  Claim C4. A text whose first line is not a conversation header should parse as one
  document at revision 0, without an error. The text below has no conversation header,
  and parsing it as a conversation raises the \<open>TypeError\<close> of the document parser.
  Whenever the document parser returns, the result is the single entry
  \<open>#document[+0]\<close>.
\<close>

theorem C4_legacy_text_raises:
  "conversationMatch (hd (split_str 10
       (js ''@__proto__[0]:'' @ [10] @ js ''| x |'' @ [10] @ js ''|---|'' @ [10] @ js ''| y |'')))
     = None \<and>
   parseTqlConversationFromString
     (js ''@__proto__[0]:'' @ [10] @ js ''| x |'' @ [10] @ js ''|---|'' @ [10] @ js ''| y |'')
   = Inl TypeError"
  by (simp add: eval_defs parseTqlConversationFromString_def conversationMatch_def)

lemma legacy_mode_single_document:
  "conversationMatch (hd (split_str 10 content)) = None \<Longrightarrow>
   parseTqlDocumentFromString content = Inr d \<Longrightarrow>
   parseTqlConversationFromString content = Inr \<lparr>sequence = [(js ''#document[+0]'', d)]\<rparr>"
  by (simp add: parseTqlConversationFromString_def)

section \<open>Row operations\<close>

lemma facetRows_setFacetRows: "facetRows (setFacetRows d f rs) g = (if g = f then rs else facetRows d g)"
  by (cases f; cases g) simp_all

lemma map_of_update_fold:
  "map_of (foldl (\<lambda>acc (k, v). AList.update k v acc) r patch) k =
     (case map_of (rev patch) k of Some v \<Rightarrow> Some v | None \<Rightarrow> map_of r k)"
  by (induction patch arbitrary: r rule: rev_induct) (auto simp: AList.update_conv' split: option.splits)

lemma mergePatch_untouched:
  "k \<notin> fst ` set patch \<Longrightarrow> map_of (mergePatch r patch) k = map_of r k"
proof -
  assume "k \<notin> fst ` set patch"
  then have "map_of (rev patch) k = None"
    by (simp add: map_of_eq_None_iff)
  then show ?thesis by (simp add: mergePatch_def map_of_update_fold)
qed

lemma mergePatch_patched:
  "map_of (rev patch) k = Some v \<Longrightarrow> map_of (mergePatch r patch) k = Some v"
  by (simp add: mergePatch_def map_of_update_fold)

text \<open>
  Claim C8. \<open>updateRow\<close> with an index outside \<open>[1, rowCount]\<close> fails with
  \<open>IndexError\<close>; otherwise it returns a document in which the row at that position
  has the fields of the patch (the last value given for a field wins), every other field
  of that row, every other row of the facet and every other facet unchanged. On a document
  with an empty meaning facet, updating row 1 fails with \<open>IndexError\<close>, and after
  inserting \<open>{column: id, definition: ''}\<close> the same update succeeds with
  \<open>meaning.rows[0] = {column: id, definition: Unique identifier}\<close>.
\<close>

theorem C8_updateRow_index_and_merge:
  "(index < 1 \<or> index > int (length (facetRows d f))
      \<longrightarrow> updateRowInMemory d f index patch = Inl IndexError)
   \<and> (1 \<le> index \<and> index \<le> int (length (facetRows d f)) \<longrightarrow>
        (\<exists>d'. updateRowInMemory d f index patch = Inr d'
           \<and> length (facetRows d' f) = length (facetRows d f)
           \<and> (\<forall>k. k \<notin> fst ` set patch \<longrightarrow>
                 map_of (facetRows d' f ! nat (index - 1)) k
                   = map_of (facetRows d f ! nat (index - 1)) k)
           \<and> (\<forall>k v. map_of (rev patch) k = Some v \<longrightarrow>
                 map_of (facetRows d' f ! nat (index - 1)) k = Some v)
           \<and> (\<forall>i. i \<noteq> nat (index - 1) \<longrightarrow> facetRows d' f ! i = facetRows d f ! i)
           \<and> (\<forall>g. g \<noteq> f \<longrightarrow> facetRows d' g = facetRows d g)))
   \<and> (meaning_rows d = [] \<longrightarrow>
        updateRowInMemory d Meaning 1 [(js ''definition'', js ''Unique identifier'')]
          = Inl IndexError
        \<and> (\<exists>d'. updateRowInMemory
                   (insertRowInMemory d Meaning
                      [(js ''column'', js ''id''), (js ''definition'', [])])
                   Meaning 1 [(js ''definition'', js ''Unique identifier'')] = Inr d'
              \<and> meaning_rows d' ! 0
                   = [(js ''column'', js ''id''), (js ''definition'', js ''Unique identifier'')]))"
proof (intro conjI impI)
  assume "index < 1 \<or> index > int (length (facetRows d f))"
  then show "updateRowInMemory d f index patch = Inl IndexError"
    by (auto simp: updateRowInMemory_def)
next
  assume a: "1 \<le> index \<and> index \<le> int (length (facetRows d f))"
  let ?i = "nat (index - 1)"
  let ?d' = "setFacetRows d f ((facetRows d f) [?i := mergePatch (facetRows d f ! ?i) patch])"
  have i: "?i < length (facetRows d f)" using a by auto
  have u: "updateRowInMemory d f index patch = Inr ?d'"
    using a by (auto simp: updateRowInMemory_def)
  have r: "facetRows ?d' f ! ?i = mergePatch (facetRows d f ! ?i) patch"
    using i by (simp add: facetRows_setFacetRows)
  show "\<exists>d'. updateRowInMemory d f index patch = Inr d'
           \<and> length (facetRows d' f) = length (facetRows d f)
           \<and> (\<forall>k. k \<notin> fst ` set patch \<longrightarrow>
                 map_of (facetRows d' f ! nat (index - 1)) k
                   = map_of (facetRows d f ! nat (index - 1)) k)
           \<and> (\<forall>k v. map_of (rev patch) k = Some v \<longrightarrow>
                 map_of (facetRows d' f ! nat (index - 1)) k = Some v)
           \<and> (\<forall>i. i \<noteq> nat (index - 1) \<longrightarrow> facetRows d' f ! i = facetRows d f ! i)
           \<and> (\<forall>g. g \<noteq> f \<longrightarrow> facetRows d' g = facetRows d g)"
  proof (intro exI [where x = ?d'] conjI allI impI)
    show "updateRowInMemory d f index patch = Inr ?d'" by (rule u)
    show "length (facetRows ?d' f) = length (facetRows d f)"
      by (simp add: facetRows_setFacetRows)
    show "map_of (facetRows ?d' f ! ?i) k = map_of (facetRows d f ! ?i) k"
      if "k \<notin> fst ` set patch" for k
      using that by (simp add: r mergePatch_untouched del: nth_list_update_eq)
    show "map_of (facetRows ?d' f ! ?i) k = Some v" if "map_of (rev patch) k = Some v" for k v
      using that by (simp add: r mergePatch_patched del: nth_list_update_eq)
    show "facetRows ?d' f ! j = facetRows d f ! j" if "j \<noteq> ?i" for j
      using that by (simp add: facetRows_setFacetRows)
    show "facetRows ?d' g = facetRows d g" if "g \<noteq> f" for g
      using that by (simp add: facetRows_setFacetRows)
  qed
next
  assume e: "meaning_rows d = []"
  show "updateRowInMemory d Meaning 1 [(js ''definition'', js ''Unique identifier'')] = Inl IndexError"
    using e by (simp add: updateRowInMemory_def)
  show "\<exists>d'. updateRowInMemory
                   (insertRowInMemory d Meaning
                      [(js ''column'', js ''id''), (js ''definition'', [])])
                   Meaning 1 [(js ''definition'', js ''Unique identifier'')] = Inr d'
              \<and> meaning_rows d' ! 0
                   = [(js ''column'', js ''id''), (js ''definition'', js ''Unique identifier'')]"
    using e by (simp add: updateRowInMemory_def insertRowInMemory_def mergePatch_def)
qed

text \<open>The scenario on the empty document.\<close>

theorem C8_witness:
  "updateRowInMemory emptyDocument Meaning 1 [(js ''definition'', js ''Unique identifier'')]
     = Inl IndexError
   \<and> (\<exists>d'. updateRowInMemory
              (insertRowInMemory emptyDocument Meaning
                 [(js ''column'', js ''id''), (js ''definition'', [])])
              Meaning 1 [(js ''definition'', js ''Unique identifier'')] = Inr d'
         \<and> meaning_rows d' ! 0
              = [(js ''column'', js ''id''), (js ''definition'', js ''Unique identifier'')])"
  using C8_updateRow_index_and_merge [of 1 emptyDocument Meaning "[]"]
  by (simp add: emptyDocument_def)

section \<open>Diff\<close>

text \<open>
  Claim C2. When the table facets of the two documents differ (in particular when some
  row differs in some cell), \<open>diffTqlDocuments\<close> fails with \<open>DatasetMismatchError\<close>,
  whose message is \<open>DIFF operations can only be performed on matching datasets\<close>, and
  returns no diff; when the table facets are identical it returns the computed diff.
\<close>

theorem C2_dataset_guard:
  "(table_rows b \<noteq> table_rows a \<longrightarrow>
      diffTqlDocuments b a = Inl DatasetMismatchError
      \<and> errorMessage DatasetMismatchError
          = Some (js ''DIFF operations can only be performed on matching datasets''))
   \<and> ((\<exists>i h. i < length (table_rows b) \<and>
               map_of (table_rows b ! i) h \<noteq> map_of (table_rows a ! i) h) \<longrightarrow>
        diffTqlDocuments b a = Inl DatasetMismatchError)
   \<and> (table_rows b = table_rows a \<longrightarrow> diffTqlDocuments b a = Inr (computeDiff b a))"
  by (auto simp: diffTqlDocuments_def errorMessage_def)

text \<open>Two tables that differ in one cell, and two identical (empty) tables.\<close>

theorem C2_witness:
  "diffTqlDocuments
     (emptyDocument\<lparr>table_rows := [[(js ''product'', js ''Widget'')]]\<rparr>)
     (emptyDocument\<lparr>table_rows := [[(js ''product'', js ''Changed'')]]\<rparr>)
     = Inl DatasetMismatchError
   \<and> (\<exists>df. diffTqlDocuments emptyDocument emptyDocument = Inr df)"
  using C2_dataset_guard [of "emptyDocument\<lparr>table_rows := [[(js ''product'', js ''Widget'')]]\<rparr>"
      "emptyDocument\<lparr>table_rows := [[(js ''product'', js ''Changed'')]]\<rparr>"]
    C2_dataset_guard [of emptyDocument emptyDocument]
  by simp

section \<open>Conversation parsing\<close>

text \<open>The only error the document parser can raise is the \<open>TypeError\<close>.\<close>

lemma parseLine_error: "parseLine st l = Inl e \<Longrightarrow> e = TypeError"
  by (auto simp: parseLine_def addRowToFacet_def Let_def split: if_splits option.splits sum.splits)

lemma parseLines_error: "parseLines st ls = Inl e \<Longrightarrow> e = TypeError"
  by (induction ls arbitrary: st) (auto split: sum.splits dest: parseLine_error)

lemma parseTqlDocumentFromString_error: "parseTqlDocumentFromString c = Inl e \<Longrightarrow> e = TypeError"
  by (auto simp: parseTqlDocumentFromString_def split: sum.splits dest: parseLines_error)

lemma docMatch_key: "docMatch l = Some k \<Longrightarrow> startsWith k (js ''#document'')"
  by (auto simp: docMatch_def startsWith_def split: option.splits)

lemma diffMatch_key: "diffMatch l = Some k \<Longrightarrow> \<not> startsWith k (js ''#document'')"
  by (auto simp: diffMatch_def startsWith_def split: option.splits)

lemma document_key_not_diff:
  "startsWith k (js ''#document'') \<Longrightarrow> \<not> startsWith k (js ''$diff'')"
  by (cases k) (auto simp: startsWith_def)

lemma saveItem_error: "saveItem sq key content = Inl e \<Longrightarrow> e = TypeError"
  by (auto simp: saveItem_def addItemToSequence_def split: option.splits if_splits sum.splits
      dest: parseTqlDocumentFromString_error)

lemma saveItem_keys:
  "saveItem sq key content = Inr sq' \<Longrightarrow>
   list_all (\<lambda>item. startsWith (fst item) (js ''#document'')) sq \<Longrightarrow>
   list_all (\<lambda>item. startsWith (fst item) (js ''#document'')) sq'"
  by (auto simp: saveItem_def addItemToSequence_def split: option.splits if_splits sum.splits)

lemma saveItem_count:
  "saveItem sq key content = Inr sq' \<Longrightarrow>
   actualDocCount sq' = actualDocCount sq +
     (case key of None \<Rightarrow> 0
      | Some k \<Rightarrow> if startsWith k (js ''#document'') \<and> content \<noteq> [] then 1 else 0)"
  by (auto simp: saveItem_def addItemToSequence_def actualDocCount_def
      split: option.splits if_splits sum.splits)

lemma conversationLoop_error: "conversationLoop sq key content ls = Inl e \<Longrightarrow> e = TypeError"
  by (induction ls arbitrary: sq key content)
     (auto split: option.splits sum.splits if_splits dest: saveItem_error)

lemma conversationLoop_keys:
  "conversationLoop sq key content ls = Inr sq' \<Longrightarrow>
   list_all (\<lambda>item. startsWith (fst item) (js ''#document'')) sq \<Longrightarrow>
   list_all (\<lambda>item. startsWith (fst item) (js ''#document'')) sq'"
proof (induction ls arbitrary: sq key content)
  case Nil
  then show ?case by (auto dest: saveItem_keys)
next
  case (Cons l ls)
  then show ?case
    by (auto split: option.splits sum.splits if_splits dest: saveItem_keys)
qed

lemma nonEmptyDocumentSections_Cons:
  "nonEmptyDocumentSections (l # ls) =
     (if docMatch l \<noteq> None \<and> ls \<noteq> [] \<and> docMatch (hd ls) = None \<and> diffMatch (hd ls) = None
      then 1 else 0) + nonEmptyDocumentSections ls"
  by (cases ls) auto

lemma conversationLoop_count:
  "conversationLoop sq key content ls = Inr sq' \<Longrightarrow>
   actualDocCount sq' =
     actualDocCount sq + pendingDocument key content ls + nonEmptyDocumentSections ls"
proof (induction ls arbitrary: sq key content)
  case Nil
  then show ?case
    by (auto simp: pendingDocument_def dest!: saveItem_count split: option.splits)
next
  case (Cons l ls)
  show ?case
  proof (cases "docMatch l")
    case (Some k)
    from Cons.prems Some obtain sq1 where s: "saveItem sq key content = Inr sq1"
      and r: "conversationLoop sq1 (Some k) [] ls = Inr sq'"
      by (auto split: sum.splits)
    from Cons.IH [OF r] saveItem_count [OF s] docMatch_key [OF Some] Some
    show ?thesis
      by (auto simp: pendingDocument_def nonEmptyDocumentSections_Cons split: option.splits)
  next
    case None
    show ?thesis
    proof (cases "diffMatch l")
      case (Some k)
      from Cons.prems None Some obtain sq1 where s: "saveItem sq key content = Inr sq1"
        and r: "conversationLoop sq1 (Some k) [] ls = Inr sq'"
        by (auto split: sum.splits)
      from Cons.IH [OF r] saveItem_count [OF s] diffMatch_key [OF Some] Some None
      show ?thesis
        by (auto simp: pendingDocument_def nonEmptyDocumentSections_Cons split: option.splits)
    next
      case dNone: None
      show ?thesis
      proof (cases key)
        case kNone: None
        with Cons.prems None dNone have r: "conversationLoop sq None content ls = Inr sq'"
          by simp
        from Cons.IH [OF r] None dNone kNone show ?thesis
          by (simp add: pendingDocument_def nonEmptyDocumentSections_Cons)
      next
        case (Some k)
        with Cons.prems None dNone
        have r: "conversationLoop sq (Some k) (content @ [l]) ls = Inr sq'"
          by simp
        from Cons.IH [OF r] None dNone Some show ?thesis
          by (simp add: pendingDocument_def nonEmptyDocumentSections_Cons)
      qed
    qed
  qed
qed

text \<open>
  Every entry of a parsed conversation is keyed by a \<open>#document\<close> header and none by a
  \<open>$diff\<close> header, whether the text opens with a conversation header or not.
\<close>

lemma only_document_keys:
  assumes "parseTqlConversationFromString content = Inr conv"
  shows "\<forall>item \<in> set (sequence conv).
           startsWith (fst item) (js ''#document'') \<and> \<not> startsWith (fst item) (js ''$diff'')"
proof -
  have "list_all (\<lambda>item. startsWith (fst item) (js ''#document'')) (sequence conv)"
  proof (cases "conversationMatch (hd (split_str 10 content))")
    case None
    with assms show ?thesis
      by (auto simp: parseTqlConversationFromString_def startsWith_def split: sum.splits)
  next
    case (Some ds)
    with assms obtain sq where l: "conversationLoop [] None [] (tl (split_str 10 content)) = Inr sq"
      and c: "conv = \<lparr>sequence = sq\<rparr>"
      by (auto simp: parseTqlConversationFromString_def Let_def split: sum.splits if_splits)
    from conversationLoop_keys [OF l] c show ?thesis by simp
  qed
  then show ?thesis
    unfolding list_all_iff by (blast dest: document_key_not_diff)
qed

lemmas conv_defs = parseTqlConversationFromString_def conversationMatch_def docMatch_def
  diffMatch_def saveItem_def addItemToSequence_def actualDocCount_def Number_parseInt_def
  toNumber_def decimalValue_def

text \<open>
  Claim C3, as amended. The documents the parser counts are the document sections with
  a body: a \<open>#document[+n]:\<close> header followed by at least one line before the next
  header or the end of the text. When the first line declares a number different from
  that count, parsing fails: it returns no conversation, and unless a document body made
  the document parser raise its \<open>TypeError\<close>, the error is the count error with the
  declared number, as the double that \<open>Number.parseInt\<close> reads, and the count.
\<close>

theorem C3_count_mismatch_fails:
  assumes "conversationMatch (hd (split_str 10 content)) = Some ds"
    and "Number_parseInt ds \<noteq> Num (nonEmptyDocumentSections (tl (split_str 10 content)))"
  shows "(\<exists>e. parseTqlConversationFromString content = Inl e)
     \<and> (parseTqlConversationFromString content \<noteq> Inl TypeError \<longrightarrow>
          parseTqlConversationFromString content
            = Inl (CountError (Number_parseInt ds)
                     (nonEmptyDocumentSections (tl (split_str 10 content)))))"
proof (cases "conversationLoop [] None [] (tl (split_str 10 content))")
  case (Inl e)
  then have "e = TypeError" by (rule conversationLoop_error)
  with Inl assms(1) show ?thesis
    by (simp add: parseTqlConversationFromString_def)
next
  case (Inr sq)
  from conversationLoop_count [OF Inr]
  have "actualDocCount sq = nonEmptyDocumentSections (tl (split_str 10 content))"
    by (simp add: pendingDocument_def actualDocCount_def)
  with Inr assms show ?thesis
    by (auto simp: parseTqlConversationFromString_def)
qed

text \<open>
  A document header that is the last line of the text opens a section without a body,
  which is not stored.
\<close>

lemma header_only_section_not_counted:
  "parseTqlConversationFromString (js ''#conversation[0]:'' @ [10] @ js ''#document[+0]:'')
     = Inr \<lparr>sequence = []\<rparr>"
  by (simp add: conv_defs eval_defs)

text \<open>
  Claim C3 as stated counts the document sections found in the body. The text below
  declares 0 documents and its body holds one \<open>#document[+0]:\<close> header line, yet
  parsing returns the empty conversation and no error.
\<close>

theorem C3_header_only_section_uncounted:
  "conversationMatch (hd (split_str 10 (js ''#conversation[0]:'' @ [10] @ js ''#document[+0]:'')))
     = Some (js ''0'')
   \<and> Number_parseInt (js ''0'') = Num 0
   \<and> documentHeaderLines (tl (split_str 10 (js ''#conversation[0]:'' @ [10] @ js ''#document[+0]:'')))
       = 1
   \<and> parseTqlConversationFromString (js ''#conversation[0]:'' @ [10] @ js ''#document[+0]:'')
       = Inr \<lparr>sequence = []\<rparr>"
  using header_only_section_not_counted
  by (simp add: conv_defs eval_defs documentHeaderLines_def)

text \<open>
  The scenario of the claim: the header declares two documents and the body holds one
  document section.
\<close>

lemma declared_two_found_one:
  "parseTqlConversationFromString
     (js ''#conversation[2]:'' @ [10, 10] @ js ''#document[+0]:'' @ [10] @
      js ''@table[0]:'' @ [10] @ js ''| index |'' @ [10] @ js ''|-------|'')
   = Inl (CountError (Num 2) 1)"
  by (simp add: conv_defs eval_defs)

text \<open>
  The declared number is read as a double: \<open>9007199254740993\<close>, which is
  \<open>2 ^ 53 + 1\<close>, is read as \<open>9007199254740992\<close>, and that is the number of the error.
\<close>

lemma declared_count_is_rounded:
  "parseTqlConversationFromString
     (js ''#conversation[9007199254740993]:'' @ [10, 10] @ js ''#document[+0]:'' @ [10] @
      js ''@table[0]:'' @ [10] @ js ''| index |'' @ [10] @ js ''|-------|'')
   = Inl (CountError (Num 9007199254740992) 1)"
  by (simp add: conv_defs eval_defs bitLength.simps)

theorem C3_witness:
  "conversationMatch (hd (split_str 10
      (js ''#conversation[2]:'' @ [10, 10] @ js ''#document[+0]:'' @ [10] @
       js ''@table[0]:'' @ [10] @ js ''| index |'' @ [10] @ js ''|-------|''))) = Some (js ''2'')
   \<and> Number_parseInt (js ''2'') = Num 2
   \<and> nonEmptyDocumentSections (tl (split_str 10
      (js ''#conversation[2]:'' @ [10, 10] @ js ''#document[+0]:'' @ [10] @
       js ''@table[0]:'' @ [10] @ js ''| index |'' @ [10] @ js ''|-------|''))) = 1
   \<and> parseTqlConversationFromString
      (js ''#conversation[2]:'' @ [10, 10] @ js ''#document[+0]:'' @ [10] @
       js ''@table[0]:'' @ [10] @ js ''| index |'' @ [10] @ js ''|-------|'')
     = Inl (CountError (Num 2) 1)"
proof -
  let ?T = "js ''#conversation[2]:'' @ [10, 10] @ js ''#document[+0]:'' @ [10] @
       js ''@table[0]:'' @ [10] @ js ''| index |'' @ [10] @ js ''|-------|''"
  have m: "conversationMatch (hd (split_str 10 ?T)) = Some (js ''2'')"
    by (simp add: conv_defs eval_defs)
  have n: "Number_parseInt (js ''2'') = Num 2"
    by (simp add: Number_parseInt_def toNumber_def decimalValue_def)
  have k: "nonEmptyDocumentSections (tl (split_str 10 ?T)) = 1"
    by (simp add: conv_defs eval_defs)
  have ne: "Number_parseInt (js ''2'') \<noteq> Num (nonEmptyDocumentSections (tl (split_str 10 ?T)))"
    unfolding n k by simp
  from C3_count_mismatch_fails [OF m ne] declared_two_found_one
  have "parseTqlConversationFromString ?T = Inl (CountError (Num 2) 1)"
    by blast
  with m n k show ?thesis by blast
qed

section \<open>Rendering and parsing a document\<close>

text \<open>Trimming, splitting and joining.\<close>

lemma dropWhile_id: "s = [] \<or> \<not> P (hd s) \<Longrightarrow> dropWhile P s = s"
  by (cases s) auto

lemma trim_id:
  "s = [] \<or> (\<not> isWhiteSpace (hd s) \<and> \<not> isWhiteSpace (last s)) \<Longrightarrow> trim s = s"
  by (cases "s = []") (simp_all add: trim_def dropWhile_id hd_rev)

lemma trim_append_left: "list_all isWhiteSpace a \<Longrightarrow> trim (a @ s) = trim s"
  by (simp add: trim_def list_all_iff dropWhile_append2)

lemma trim_append_right:
  assumes "list_all isWhiteSpace b"
  shows "trim (s @ b) = trim s"
proof (cases "list_all isWhiteSpace s")
  case True
  with assms have "dropWhile isWhiteSpace (s @ b) = []" "dropWhile isWhiteSpace s = []"
    by (auto simp: list_all_iff dropWhile_eq_Nil_conv)
  then show ?thesis by (simp only: trim_def)
next
  case False
  then obtain x where x: "x \<in> set s" "\<not> isWhiteSpace x"
    by (auto simp: list_all_iff)
  then have "dropWhile isWhiteSpace (s @ b) = dropWhile isWhiteSpace s @ b"
    by (rule dropWhile_append1)
  moreover have "dropWhile isWhiteSpace (rev b @ ys) = dropWhile isWhiteSpace ys" for ys
    using assms by (intro dropWhile_append2) (simp add: list_all_iff)
  ultimately show ?thesis by (simp add: trim_def)
qed

lemma trim_padEnd: "trim (padEnd s w) = trim s"
  by (simp add: padEnd_def trim_append_right list_all_iff isWhiteSpace_def)

lemma trim_spaced: "trim (32 # s @ [32]) = trim s"
proof -
  have "trim ([32] @ (s @ [32])) = trim (s @ [32])"
    by (rule trim_append_left) (simp add: isWhiteSpace_def)
  also have "\<dots> = trim s"
    by (rule trim_append_right) (simp add: isWhiteSpace_def)
  finally show ?thesis by simp
qed

lemma split_str_not_Nil: "split_str c s \<noteq> []"
  by (induction s) (auto split: list.splits)

lemma split_str_no_separator: "c \<notin> set s \<Longrightarrow> split_str c s = [s]"
  by (induction s) auto

lemma split_str_append: "split_str c (xs @ c # ys) = split_str c xs @ split_str c ys"
proof (induction xs)
  case Nil
  show ?case by simp
next
  case (Cons x xs)
  then show ?case
    using split_str_not_Nil [of c xs] by (cases "split_str c xs") auto
qed

lemma join_Cons_Cons: "xs \<noteq> [] \<Longrightarrow> join sep (x # xs) = x @ sep @ join sep xs"
  by (cases xs) auto

lemma split_str_join:
  "ls \<noteq> [] \<Longrightarrow> \<forall>l \<in> set ls. c \<notin> set l \<Longrightarrow> split_str c (join [c] ls) = ls"
proof (induction ls)
  case Nil
  then show ?case by simp
next
  case (Cons x xs)
  show ?case
  proof (cases "xs = []")
    case True
    with Cons.prems show ?thesis by (simp add: split_str_no_separator)
  next
    case False
    with Cons show ?thesis
      by (simp add: join_Cons_Cons split_str_append split_str_no_separator)
  qed
qed

lemma split_str_section:
  "ls \<noteq> [] \<Longrightarrow> \<forall>l \<in> set ls. c \<notin> set l \<Longrightarrow>
   split_str c (join [c] ls @ c # c # rest) = ls @ [] # split_str c rest"
  by (simp add: split_str_append split_str_join)

lemma join_spaced:
  "xs \<noteq> [] \<Longrightarrow>
   32 # join [32, 124, 32] xs @ [32] = join [124] (map (\<lambda>x. 32 # x @ [32]) xs)"
proof (induction xs)
  case Nil
  then show ?case by simp
next
  case (Cons x xs)
  then show ?case by (cases "xs = []") (simp_all add: join_Cons_Cons)
qed

lemma list_all_join:
  "list_all P sep \<Longrightarrow> list_all P (join sep xs) \<longleftrightarrow> (\<forall>x \<in> set xs. list_all P x)"
proof (induction xs)
  case Nil
  then show ?case by simp
next
  case (Cons x xs)
  then show ?case by (cases "xs = []") (auto simp: join_Cons_Cons)
qed

text \<open>A rendered table line: pipe, space, the cells joined by space-pipe-space, space, pipe.\<close>

lemma parseTableRow_rendered:
  assumes "xs \<noteq> []" and "\<forall>x \<in> set xs. 124 \<notin> set x"
  shows "parseTableRow (js ''| '' @ join (js '' | '') xs @ js '' |'') = map trim xs"
proof -
  let ?line = "js ''| '' @ join (js '' | '') xs @ js '' |''"
  have t: "trim ?line = ?line"
    by (rule trim_id) (simp add: isWhiteSpace_def)
  have s: "slice_1_m1 ?line = 32 # join [32, 124, 32] xs @ [32]"
    by (simp add: slice_1_m1_def butlast_append)
  have "split_str 124 (join [124] (map (\<lambda>x. 32 # x @ [32]) xs)) = map (\<lambda>x. 32 # x @ [32]) xs"
    using assms by (intro split_str_join) auto
  with join_spaced [OF assms(1)]
  have "split_str 124 (slice_1_m1 ?line) = map (\<lambda>x. 32 # x @ [32]) xs"
    by (simp only: s)
  then show ?thesis
    unfolding parseTableRow_def t by (simp add: trim_spaced comp_def)
qed

lemma pipe_line:
  assumes "l \<noteq> []" "hd l = 124" "last l = 124"
  shows "trim l = l" "parseFacetHeader l = None" "isTableRow l"
proof -
  show "trim l = l" using assms by (intro trim_id) (simp add: isWhiteSpace_def)
  show "parseFacetHeader l = None" using assms
    by (cases l) (auto simp: parseFacetHeader_def matchLit_def startsWith_def)
  show "isTableRow l" using assms
    by (cases l) (auto simp: isTableRow_def startsWith_def)
qed

lemma isSeparatorRow_rendered:
  "isSeparatorRow (js ''| '' @ join (js '' | '') xs @ js '' |'')
     \<longleftrightarrow> (\<forall>x \<in> set xs. list_all (\<lambda>c. c = 45 \<or> isWhiteSpace c \<or> c = 124) x)"
proof -
  let ?P = "\<lambda>c. c = 45 \<or> isWhiteSpace c \<or> c = (124::nat)"
  have "slice_1_m1 (js ''| '' @ join (js '' | '') xs @ js '' |'') = 32 # join [32, 124, 32] xs @ [32]"
    by (simp add: slice_1_m1_def butlast_append)
  moreover have "list_all ?P (join [32, 124, 32] xs) \<longleftrightarrow> (\<forall>x \<in> set xs. list_all ?P x)"
    by (rule list_all_join) (simp add: isWhiteSpace_def)
  ultimately show ?thesis
    by (simp add: isSeparatorRow_def isWhiteSpace_def)
qed


text \<open>The header row and the data rows of a table, and how the parser reads one line.\<close>

lemma zip_map_same: "zip xs (map f xs) = map (\<lambda>x. (x, f x)) xs"
  by (induction xs) auto

lemma headerRow_map:
  "headerRow hs (map f hs)
     = js ''| '' @ join (js '' | '') (map (\<lambda>h. padEnd h (f h)) hs) @ js '' |''"
  by (simp add: headerRow_def zip_map_same comp_def)

lemma dataRow_map:
  "dataRow hs (map f hs) r
     = js ''| '' @ join (js '' | '') (map (\<lambda>h. padEnd (cell r h) (f h)) hs) @ js '' |''"
  by (simp add: dataRow_def zip_map_same comp_def)

lemma rendered_line:
  "js ''| '' @ join (js '' | '') xs @ js '' |'' \<noteq> []"
  "hd (js ''| '' @ join (js '' | '') xs @ js '' |'') = 124"
  "last (js ''| '' @ join (js '' | '') xs @ js '' |'') = 124"
  by simp_all

lemma update_absent: "k \<notin> fst ` set al \<Longrightarrow> AList.update k v al = al @ [(k, v)]"
  by (induction al) auto

lemma buildRow_step:
  "distinct hs \<Longrightarrow> set hs \<inter> fst ` set acc = {} \<Longrightarrow> js ''__proto__'' \<notin> set hs \<Longrightarrow>
   n + length hs \<le> length cells \<Longrightarrow>
   foldl (\<lambda>r (j, currentHeader).
            assign r currentHeader (if j < length cells then cells ! j else []))
       acc (enumerate n hs)
     = acc @ zip hs (drop n cells)"
proof (induction hs arbitrary: acc n)
  case Nil
  then show ?case by simp
next
  case (Cons h hs)
  have a: "assign acc h (cells ! n) = acc @ [(h, cells ! n)]"
    using Cons.prems by (auto simp: assign_def update_absent)
  have d: "drop n cells = cells ! n # drop (Suc n) cells"
    using Cons.prems by (simp add: Cons_nth_drop_Suc)
  have "foldl (\<lambda>r (j, currentHeader).
            assign r currentHeader (if j < length cells then cells ! j else []))
       (acc @ [(h, cells ! n)]) (enumerate (Suc n) hs)
     = (acc @ [(h, cells ! n)]) @ zip hs (drop (Suc n) cells)"
    using Cons.prems by (intro Cons.IH) auto
  with a d Cons.prems show ?case by simp
qed

lemma buildRow_map:
  "distinct hs \<Longrightarrow> js ''__proto__'' \<notin> set hs \<Longrightarrow>
   buildRow hs (map g hs) = map (\<lambda>h. (h, g h)) hs"
  using buildRow_step [of hs "[]" 0 "map g hs"]
  by (simp add: buildRow_def zip_map_same)

lemma wellFormedHeaders_D:
  assumes "wellFormedHeaders hs"
  shows "hs \<noteq> []" "distinct hs" "js ''__proto__'' \<notin> set hs"
    "\<forall>h \<in> set hs. 124 \<notin> set h" "\<forall>h \<in> set hs. 10 \<notin> set h" "map trim hs = hs"
    "\<not> (\<forall>h \<in> set hs. list_all (\<lambda>c. c = 45 \<or> isWhiteSpace c \<or> c = 124) h)"
  using assms
  by (auto simp: wellFormedHeaders_def list_all_iff cleanText_def map_idI)

lemma list_all_padEnd:
  "list_all (\<lambda>c. c = 45 \<or> isWhiteSpace c \<or> c = 124) (padEnd s w)
     \<longleftrightarrow> list_all (\<lambda>c. c = 45 \<or> isWhiteSpace c \<or> c = 124) s"
  by (auto simp: padEnd_def list_all_iff isWhiteSpace_def)

lemma pipe_free_padEnd: "124 \<notin> set (padEnd s w) \<longleftrightarrow> 124 \<notin> set s"
  by (auto simp: padEnd_def)

lemma addRowToFacet_known:
  "map_of FACET_REGISTRY name = Some app \<Longrightarrow> addRowToFacet d name r = Inr (app d r)"
  by (simp add: addRowToFacet_def)

lemma parseLine_blank:
  "currentHeaders st \<noteq> [] \<Longrightarrow>
   parseLine st [] = Inr (st\<lparr>currentHeaders := [], inDataSection := False, headerParsed := False\<rparr>)"
  by (simp add: parseLine_def trim_def)

lemma parseLine_facet_header:
  "trim l \<noteq> [] \<Longrightarrow> parseFacetHeader (trim l) = Some name \<Longrightarrow>
   parseLine st l = Inr (st\<lparr>currentFacet := Some name, inDataSection := True,
                            headerParsed := False, currentHeaders := []\<rparr>)"
  by (simp add: parseLine_def)

lemma parseLine_separator:
  "trim l = l \<Longrightarrow> l \<noteq> [] \<Longrightarrow> parseFacetHeader l = None \<Longrightarrow>
   currentFacet st = Some name \<Longrightarrow> isSeparatorRow l \<Longrightarrow>
   parseLine st l = Inr (st\<lparr>headerParsed := True\<rparr>)"
  by (simp add: parseLine_def)

lemma parseLine_header_row:
  "trim l = l \<Longrightarrow> l \<noteq> [] \<Longrightarrow> parseFacetHeader l = None \<Longrightarrow> isTableRow l \<Longrightarrow>
   currentFacet st = Some name \<Longrightarrow> \<not> isSeparatorRow l \<Longrightarrow> inDataSection st \<Longrightarrow>
   \<not> headerParsed st \<Longrightarrow> currentHeaders st = [] \<Longrightarrow>
   parseLine st l = Inr (st\<lparr>currentHeaders := parseTableRow l\<rparr>)"
  by (simp add: parseLine_def)

lemma parseLine_data_row:
  "trim l = l \<Longrightarrow> l \<noteq> [] \<Longrightarrow> parseFacetHeader l = None \<Longrightarrow> isTableRow l \<Longrightarrow>
   currentFacet st = Some name \<Longrightarrow> \<not> isSeparatorRow l \<Longrightarrow> inDataSection st \<Longrightarrow>
   headerParsed st \<Longrightarrow>
   addRowToFacet (doc st) name (buildRow (currentHeaders st) (parseTableRow l)) = Inr d' \<Longrightarrow>
   parseLine st l = Inr (st\<lparr>doc := d'\<rparr>)"
  by (simp add: parseLine_def)

lemma parseLine_dataRow:
  assumes st: "currentFacet st = Some name" "currentHeaders st = hs" "inDataSection st"
      "headerParsed st"
    and reg: "map_of FACET_REGISTRY name = Some app"
    and wf: "wellFormedHeaders hs"
    and clean: "list_all (\<lambda>h. cleanText (cell r h)) hs"
  shows "parseLine st (dataRow hs (map f hs) r)
     = Inr (if isSeparatorLike hs r then st
            else st\<lparr>doc := app (doc st) (map (\<lambda>h. (h, trim (cell r h))) hs)\<rparr>)"
proof -
  let ?xs = "map (\<lambda>h. padEnd (cell r h) (f h)) hs"
  let ?L = "js ''| '' @ join (js '' | '') ?xs @ js '' |''"
  let ?row = "map (\<lambda>h. (h, trim (cell r h))) hs"
  note w = wellFormedHeaders_D [OF wf]
  have L: "dataRow hs (map f hs) r = ?L" by (rule dataRow_map)
  have p: "trim ?L = ?L" "parseFacetHeader ?L = None" "isTableRow ?L"
    by (rule pipe_line; simp)+
  have ne: "?L \<noteq> []" by simp
  have sep: "isSeparatorRow ?L \<longleftrightarrow> isSeparatorLike hs r"
    unfolding isSeparatorRow_rendered isSeparatorLike_def
    by (simp add: list_all_padEnd list_all_iff [where xs = hs])
  have "parseTableRow ?L = map trim ?xs"
    using w(1) clean
    by (intro parseTableRow_rendered) (auto simp: pipe_free_padEnd list_all_iff cleanText_def)
  then have cells: "parseTableRow ?L = map (\<lambda>h. trim (cell r h)) hs"
    by (simp add: trim_padEnd comp_def)
  have row: "buildRow hs (map (\<lambda>h. trim (cell r h)) hs) = ?row"
    using w by (intro buildRow_map)
  have same: "st\<lparr>headerParsed := True\<rparr> = st"
    using st(4) by (cases st) simp
  show ?thesis
  proof (cases "isSeparatorLike hs r")
    case True
    with sep have "isSeparatorRow ?L" by blast
    with p(1) ne p(2) st(1) have "parseLine st ?L = Inr (st\<lparr>headerParsed := True\<rparr>)"
      by (rule parseLine_separator)
    with True show ?thesis by (simp only: L same if_True)
  next
    case False
    with sep have n: "\<not> isSeparatorRow ?L" by blast
    have "addRowToFacet (doc st) name (buildRow (currentHeaders st) (parseTableRow ?L))
        = Inr (app (doc st) ?row)"
      by (simp only: st(2) cells row addRowToFacet_known [OF reg])
    with p(1) ne p(2) p(3) st(1) n st(3) st(4)
    have "parseLine st ?L = Inr (st\<lparr>doc := app (doc st) ?row\<rparr>)"
      by (rule parseLine_data_row)
    with False show ?thesis by (simp only: L if_False)
  qed
qed

text \<open>The data rows of a section, parsed from a state in which the header has been read.\<close>

lemma parseLines_dataRows:
  assumes reg: "map_of FACET_REGISTRY name = Some app"
    and wf: "wellFormedHeaders hs"
  shows "currentFacet st = Some name \<Longrightarrow> currentHeaders st = hs \<Longrightarrow> inDataSection st \<Longrightarrow>
     headerParsed st \<Longrightarrow> renderable hs rows \<Longrightarrow>
     parseLines st (map (dataRow hs (map f hs)) rows)
       = Inr (st\<lparr>doc := foldl app (doc st) (roundTripRows hs rows)\<rparr>)"
proof (induction rows arbitrary: st)
  case Nil
  then show ?case by (simp add: roundTripRows_def)
next
  case (Cons r rows)
  from Cons.prems(5) have c: "list_all (\<lambda>h. cleanText (cell r h)) hs" and rs: "renderable hs rows"
    by (simp_all add: renderable_def)
  let ?st' = "if isSeparatorLike hs r then st
            else st\<lparr>doc := app (doc st) (map (\<lambda>h. (h, trim (cell r h))) hs)\<rparr>"
  have step: "parseLine st (dataRow hs (map f hs) r) = Inr ?st'"
    using Cons.prems(1-4) reg wf c by (rule parseLine_dataRow)
  have "parseLines ?st' (map (dataRow hs (map f hs)) rows)
      = Inr (?st'\<lparr>doc := foldl app (doc ?st') (roundTripRows hs rows)\<rparr>)"
    using Cons.prems(1-4) rs by (intro Cons.IH) auto
  with step show ?case
    by (simp add: roundTripRows_def)
qed


lemma Number_toString_digits:
  "Number_toString n \<noteq> [] \<and> list_all isDigit (Number_toString n)"
proof (induction n rule: Number_toString.induct)
  case (1 n)
  show ?case
  proof (cases "n < 10")
    case True
    then show ?thesis
      by (subst Number_toString.simps, subst (2) Number_toString.simps) (simp add: isDigit_def)
  next
    case False
    with 1 have "Number_toString (n div 10) \<noteq> [] \<and> list_all isDigit (Number_toString (n div 10))"
      by simp
    moreover have "isDigit (48 + n mod 10)"
      by (simp add: isDigit_def)
    ultimately show ?thesis
      using False by (subst Number_toString.simps, subst (2) Number_toString.simps) simp
  qed
qed

lemma takeWhile_run: "list_all P xs \<Longrightarrow> \<not> P y \<Longrightarrow> takeWhile P (xs @ y # ys) = xs"
  by (induction xs) auto

lemma dropWhile_run: "list_all P xs \<Longrightarrow> \<not> P y \<Longrightarrow> dropWhile P (xs @ y # ys) = y # ys"
  by (induction xs) auto

lemma parseFacetHeader_facetHeaderLine:
  assumes "name \<noteq> []" "list_all isWordChar name"
  shows "trim (facetHeaderLine name n) = facetHeaderLine name n"
    and "facetHeaderLine name n \<noteq> []"
    and "parseFacetHeader (facetHeaderLine name n) = Some name"
proof -
  let ?ds = "Number_toString n"
  have l: "facetHeaderLine name n = 64 # name @ 91 # ?ds @ [93, 58]"
    by (simp add: facetHeaderLine_def)
  show "trim (facetHeaderLine name n) = facetHeaderLine name n"
    unfolding l by (rule trim_id) (simp add: isWhiteSpace_def)
  show "facetHeaderLine name n \<noteq> []"
    unfolding l by simp
  have w: "takeWhile isWordChar (name @ 91 # ?ds @ [93, 58]) = name"
    "dropWhile isWordChar (name @ 91 # ?ds @ [93, 58]) = 91 # ?ds @ [93, 58]"
    using assms(2) by (simp_all add: takeWhile_run dropWhile_run isWordChar_def isDigit_def)
  have d: "takeWhile isDigit (?ds @ [93, 58]) = ?ds"
    "dropWhile isDigit (?ds @ [93, 58]) = [93, 58]"
    using Number_toString_digits [of n]
    by (simp_all add: takeWhile_run dropWhile_run isDigit_def)
  show "parseFacetHeader (facetHeaderLine name n) = Some name"
    unfolding l
    using assms(1) Number_toString_digits [of n]
    by (simp add: parseFacetHeader_def matchLit_def matchPlus_def startsWith_def w d)
qed

lemma length_join_ge: "xs \<noteq> [] \<Longrightarrow> length (hd xs) \<le> length (join sep xs)"
  by (cases xs) (simp_all add: join_Cons)

lemma separator_line:
  assumes "ws \<noteq> []"
  shows "trim (separator ws) = separator ws" "separator ws \<noteq> []"
    "parseFacetHeader (separator ws) = None" "isSeparatorRow (separator ws)"
proof -
  let ?xs = "map (\<lambda>w. replicate (w + 2) (45::nat)) ws"
  have l: "separator ws = 124 # join [124] ?xs @ [124]"
    by (simp add: separator_def)
  show "trim (separator ws) = separator ws" "parseFacetHeader (separator ws) = None"
    unfolding l by (rule pipe_line; simp)+
  show "separator ws \<noteq> []"
    unfolding l by simp
  have "length (hd ?xs) \<le> length (join [124] ?xs)"
    using assms by (intro length_join_ge) simp
  moreover have "length (hd ?xs) \<ge> 2"
    using assms by (cases ws) simp_all
  ultimately have len: "3 \<le> length (separator ws)"
    unfolding l by simp
  have "list_all (\<lambda>c. c = 45 \<or> isWhiteSpace c \<or> c = 124) (join [124] ?xs)"
    by (subst list_all_join) (auto simp: list_all_iff)
  then show "isSeparatorRow (separator ws)"
    using len unfolding l by (simp add: isSeparatorRow_def slice_1_m1_def)
qed

lemma headerRow_line:
  assumes wf: "wellFormedHeaders hs"
  shows "trim (headerRow hs (map f hs)) = headerRow hs (map f hs)"
    "headerRow hs (map f hs) \<noteq> []"
    "parseFacetHeader (headerRow hs (map f hs)) = None"
    "isTableRow (headerRow hs (map f hs))"
    "\<not> isSeparatorRow (headerRow hs (map f hs))"
    "parseTableRow (headerRow hs (map f hs)) = hs"
proof -
  let ?xs = "map (\<lambda>h. padEnd h (f h)) hs"
  let ?L = "js ''| '' @ join (js '' | '') ?xs @ js '' |''"
  note w = wellFormedHeaders_D [OF wf]
  have L: "headerRow hs (map f hs) = ?L" by (rule headerRow_map)
  show "trim (headerRow hs (map f hs)) = headerRow hs (map f hs)"
    "parseFacetHeader (headerRow hs (map f hs)) = None"
    "isTableRow (headerRow hs (map f hs))"
    unfolding L by (rule pipe_line; simp)+
  show "headerRow hs (map f hs) \<noteq> []" unfolding L by simp
  have "isSeparatorRow ?L
      \<longleftrightarrow> (\<forall>h \<in> set hs. list_all (\<lambda>c. c = 45 \<or> isWhiteSpace c \<or> c = 124) h)"
    unfolding isSeparatorRow_rendered by (simp add: list_all_padEnd)
  with w(7) show "\<not> isSeparatorRow (headerRow hs (map f hs))"
    unfolding L by blast
  have "parseTableRow ?L = map trim ?xs"
    using w(1) w(4) by (intro parseTableRow_rendered) (auto simp: pipe_free_padEnd)
  also have "\<dots> = map trim hs" by (simp add: trim_padEnd comp_def)
  finally show "parseTableRow (headerRow hs (map f hs)) = hs"
    unfolding L using w(6) by simp
qed

text \<open>
  A whole rendered section, parsed from any state: the facet is opened, its column names
  are read, and the rows that are not separator-like are appended.
\<close>

lemma parseLines_section_lines:
  assumes reg: "map_of FACET_REGISTRY name = Some app"
    and name: "name \<noteq> []" "list_all isWordChar name"
    and wf: "wellFormedHeaders hs"
    and rs: "renderable hs rows"
  shows "parseLines st
       (facetHeaderLine name n # headerRow hs (map f hs) # separator (map f hs)
          # map (dataRow hs (map f hs)) rows)
     = Inr \<lparr>doc = foldl app (doc st) (roundTripRows hs rows), currentFacet = Some name,
            currentHeaders = hs, inDataSection = True, headerParsed = True\<rparr>"
proof -
  let ?st1 = "st\<lparr>currentFacet := Some name, inDataSection := True, headerParsed := False,
      currentHeaders := []\<rparr>"
  let ?st2 = "?st1\<lparr>currentHeaders := parseTableRow (headerRow hs (map f hs))\<rparr>"
  let ?st3 = "?st2\<lparr>headerParsed := True\<rparr>"
  note fh = parseFacetHeader_facetHeaderLine [OF name, of n]
  note hr = headerRow_line [OF wf, of f]
  note w = wellFormedHeaders_D [OF wf]
  have 1: "parseLine st (facetHeaderLine name n) = Inr ?st1"
    by (rule parseLine_facet_header) (simp_all add: fh)
  have 2: "parseLine ?st1 (headerRow hs (map f hs)) = Inr ?st2"
    by (rule parseLine_header_row [where name = name, OF hr(1) hr(2) hr(3) hr(4) _ hr(5)])
      simp_all
  have 3: "parseLine ?st2 (separator (map f hs)) = Inr ?st3"
    using w(1) by (intro parseLine_separator [where name = name] separator_line) simp_all
  have 4: "parseLines ?st3 (map (dataRow hs (map f hs)) rows)
      = Inr (?st3\<lparr>doc := foldl app (doc ?st3) (roundTripRows hs rows)\<rparr>)"
    by (rule parseLines_dataRows [OF reg wf _ _ _ _ rs]) (simp_all add: hr(6))
  have "parseLines st
       (facetHeaderLine name n # headerRow hs (map f hs) # separator (map f hs)
          # map (dataRow hs (map f hs)) rows)
     = Inr (?st3\<lparr>doc := foldl app (doc ?st3) (roundTripRows hs rows)\<rparr>)"
    by (simp only: parseLines.simps 1 2 3 4 sum.case)
  also have "?st3\<lparr>doc := foldl app (doc ?st3) (roundTripRows hs rows)\<rparr>
     = \<lparr>doc = foldl app (doc st) (roundTripRows hs rows), currentFacet = Some name,
            currentHeaders = hs, inDataSection = True, headerParsed = True\<rparr>"
    by (cases st) (simp add: hr(6))
  finally show ?thesis .
qed

lemma parseLines_section:
  assumes "map_of FACET_REGISTRY name = Some app"
    and "name \<noteq> []" "list_all isWordChar name"
    and "wellFormedHeaders hs"
    and "renderable hs rows"
  shows "parseLines st (generateTable_lines hs rows n name)
     = Inr \<lparr>doc = foldl app (doc st) (roundTripRows hs rows), currentFacet = Some name,
            currentHeaders = hs, inDataSection = True, headerParsed = True\<rparr>"
  unfolding generateTable_lines_def colWidths_def
  using parseLines_section_lines [OF assms] by simp

lemma parseLines_append:
  "parseLines st (xs @ ys)
     = (case parseLines st xs of Inl e \<Rightarrow> Inl e | Inr st' \<Rightarrow> parseLines st' ys)"
  by (induction xs arbitrary: st) (auto split: sum.splits)

text \<open>A section followed by the blank line that separates it from the next section.\<close>

lemma parseLines_section_blank:
  assumes "map_of FACET_REGISTRY name = Some app"
    and "name \<noteq> []" "list_all isWordChar name"
    and "wellFormedHeaders hs"
    and "renderable hs rows"
  shows "parseLines st (generateTable_lines hs rows n name @ [] # rest)
     = parseLines \<lparr>doc = foldl app (doc st) (roundTripRows hs rows), currentFacet = Some name,
            currentHeaders = [], inDataSection = False, headerParsed = False\<rparr> rest"
proof -
  have "hs \<noteq> []" using assms(4) by (rule wellFormedHeaders_D)
  then show ?thesis
    by (simp add: parseLines_append parseLines_section [OF assms] parseLine_blank)
qed


lemma rendered_no_newline:
  assumes "\<forall>x \<in> set xs. 10 \<notin> set x"
  shows "10 \<notin> set (js ''| '' @ join (js '' | '') xs @ js '' |'')"
proof -
  have "list_all (\<lambda>c. c \<noteq> 10) (join [32, 124, 32] xs)"
    using assms by (subst list_all_join) (auto simp: list_all_iff)
  then show ?thesis by (auto simp: list_all_iff)
qed

lemma newline_free_padEnd: "10 \<notin> set (padEnd s w) \<longleftrightarrow> 10 \<notin> set s"
  by (auto simp: padEnd_def)

lemma generateTable_lines_no_newline:
  assumes wf: "wellFormedHeaders hs" and rs: "renderable hs rows" and name: "10 \<notin> set name"
  shows "\<forall>l \<in> set (generateTable_lines hs rows n name). 10 \<notin> set l"
proof -
  define f where "f = (\<lambda>header. max (length header)
      (if length rows > 0 then Math_max (map (\<lambda>r. length (cell r header)) rows) else 0))"
  have cw: "colWidths hs rows = map f hs"
    by (simp add: colWidths_def f_def)
  note w = wellFormedHeaders_D [OF wf]
  have "list_all isDigit (Number_toString n)"
    using Number_toString_digits [of n] by simp
  then have 1: "10 \<notin> set (facetHeaderLine name n)"
    using name by (auto simp: facetHeaderLine_def list_all_iff isDigit_def)
  have 2: "10 \<notin> set (headerRow hs (map f hs))"
    unfolding headerRow_map using w(5)
    by (intro rendered_no_newline) (simp add: newline_free_padEnd)
  have "list_all (\<lambda>c. c \<noteq> 10) (join [124] (map (\<lambda>w. replicate (w + 2) (45::nat)) (map f hs)))"
    by (subst list_all_join) (auto simp: list_all_iff)
  then have 3: "10 \<notin> set (separator (map f hs))"
    by (auto simp: separator_def list_all_iff)
  have 4: "10 \<notin> set (dataRow hs (map f hs) r)" if "r \<in> set rows" for r
    unfolding dataRow_map using rs that
    by (intro rendered_no_newline)
      (auto simp: newline_free_padEnd renderable_def list_all_iff cleanText_def)
  show ?thesis
    unfolding generateTable_lines_def cw using 1 2 3 4 by auto
qed

lemma generateTable_lines_not_Nil: "generateTable_lines hs rows n name \<noteq> []"
  by (simp add: generateTable_lines_def)

lemma split_str_generateTable:
  assumes "wellFormedHeaders hs" "renderable hs rows" "10 \<notin> set name"
  shows "split_str 10 (generateTable hs rows n name @ 10 # 10 # rest)
           = generateTable_lines hs rows n name @ [] # split_str 10 rest"
    and "split_str 10 (generateTable hs rows n name) = generateTable_lines hs rows n name"
  unfolding generateTable_def
  by (rule split_str_section [OF generateTable_lines_not_Nil generateTable_lines_no_newline [OF assms]])
    (rule split_str_join [OF generateTable_lines_not_Nil generateTable_lines_no_newline [OF assms]])

lemma generateTableSection_headers:
  "generateTableSection d
     = generateTable (table_headers d) (table_rows d) (length (table_rows d)) (js ''table'')"
  by (simp add: generateTableSection_def table_headers_def)

lemma fixed_headers_wellFormed:
  "wellFormedHeaders [js ''index'']"
  "wellFormedHeaders meaning_headers"
  "wellFormedHeaders structure_headers"
  "wellFormedHeaders ambiguity_headers"
  "wellFormedHeaders intent_headers"
  "wellFormedHeaders context_headers"
  "wellFormedHeaders query_headers"
  "wellFormedHeaders tasks_headers"
  "wellFormedHeaders score_headers"
  by (simp_all add: wellFormedHeaders_def cleanText_def trim_def isWhiteSpace_def gen_defs)

lemma facet_names_not_Nil:
  "js ''table'' \<noteq> []"
  "js ''meaning'' \<noteq> []"
  "js ''structure'' \<noteq> []"
  "js ''ambiguity'' \<noteq> []"
  "js ''intent'' \<noteq> []"
  "js ''context'' \<noteq> []"
  "js ''query'' \<noteq> []"
  "js ''tasks'' \<noteq> []"
  "js ''score'' \<noteq> []"
  by simp_all

lemma facet_names_word:
  "list_all isWordChar (js ''table'')"
  "list_all isWordChar (js ''meaning'')"
  "list_all isWordChar (js ''structure'')"
  "list_all isWordChar (js ''ambiguity'')"
  "list_all isWordChar (js ''intent'')"
  "list_all isWordChar (js ''context'')"
  "list_all isWordChar (js ''query'')"
  "list_all isWordChar (js ''tasks'')"
  "list_all isWordChar (js ''score'')"
  by (simp_all add: isWordChar_def isDigit_def)

lemma facet_names_no_newline:
  "10 \<notin> set (js ''table'')"
  "10 \<notin> set (js ''meaning'')"
  "10 \<notin> set (js ''structure'')"
  "10 \<notin> set (js ''ambiguity'')"
  "10 \<notin> set (js ''intent'')"
  "10 \<notin> set (js ''context'')"
  "10 \<notin> set (js ''query'')"
  "10 \<notin> set (js ''tasks'')"
  "10 \<notin> set (js ''score'')"
  by simp_all

lemma registry_lookup:
  "map_of FACET_REGISTRY (js ''table'') = Some (\<lambda>d r. d\<lparr>table_rows := table_rows d @ [r]\<rparr>)"
  "map_of FACET_REGISTRY (js ''meaning'')
     = Some (\<lambda>d r. d\<lparr>meaning_rows := meaning_rows d @ [r]\<rparr>)"
  "map_of FACET_REGISTRY (js ''structure'')
     = Some (\<lambda>d r. d\<lparr>structure_rows := structure_rows d @ [r]\<rparr>)"
  "map_of FACET_REGISTRY (js ''ambiguity'')
     = Some (\<lambda>d r. d\<lparr>ambiguity_rows := ambiguity_rows d @ [r]\<rparr>)"
  "map_of FACET_REGISTRY (js ''intent'') = Some (\<lambda>d r. d\<lparr>intent_rows := intent_rows d @ [r]\<rparr>)"
  "map_of FACET_REGISTRY (js ''context'')
     = Some (\<lambda>d r. d\<lparr>context_rows := context_rows d @ [r]\<rparr>)"
  "map_of FACET_REGISTRY (js ''query'') = Some (\<lambda>d r. d\<lparr>query_rows := query_rows d @ [r]\<rparr>)"
  "map_of FACET_REGISTRY (js ''tasks'') = Some (\<lambda>d r. d\<lparr>tasks_rows := tasks_rows d @ [r]\<rparr>)"
  "map_of FACET_REGISTRY (js ''score'') = Some (\<lambda>d r. d\<lparr>score_rows := score_rows d @ [r]\<rparr>)"
  by (simp_all add: FACET_REGISTRY_def)

lemma push_rows:
  "foldl (\<lambda>d r. d\<lparr>table_rows := table_rows d @ [r]\<rparr>) d rs = d\<lparr>table_rows := table_rows d @ rs\<rparr>"
  "foldl (\<lambda>d r. d\<lparr>meaning_rows := meaning_rows d @ [r]\<rparr>) d rs
     = d\<lparr>meaning_rows := meaning_rows d @ rs\<rparr>"
  "foldl (\<lambda>d r. d\<lparr>structure_rows := structure_rows d @ [r]\<rparr>) d rs
     = d\<lparr>structure_rows := structure_rows d @ rs\<rparr>"
  "foldl (\<lambda>d r. d\<lparr>ambiguity_rows := ambiguity_rows d @ [r]\<rparr>) d rs
     = d\<lparr>ambiguity_rows := ambiguity_rows d @ rs\<rparr>"
  "foldl (\<lambda>d r. d\<lparr>intent_rows := intent_rows d @ [r]\<rparr>) d rs
     = d\<lparr>intent_rows := intent_rows d @ rs\<rparr>"
  "foldl (\<lambda>d r. d\<lparr>context_rows := context_rows d @ [r]\<rparr>) d rs
     = d\<lparr>context_rows := context_rows d @ rs\<rparr>"
  "foldl (\<lambda>d r. d\<lparr>query_rows := query_rows d @ [r]\<rparr>) d rs
     = d\<lparr>query_rows := query_rows d @ rs\<rparr>"
  "foldl (\<lambda>d r. d\<lparr>tasks_rows := tasks_rows d @ [r]\<rparr>) d rs
     = d\<lparr>tasks_rows := tasks_rows d @ rs\<rparr>"
  "foldl (\<lambda>d r. d\<lparr>score_rows := score_rows d @ [r]\<rparr>) d rs
     = d\<lparr>score_rows := score_rows d @ rs\<rparr>"
  by (induction rs arbitrary: d; simp)+


text \<open>
  Rendering a renderable document and parsing the text gives back, facet by facet, the rows
  that are not separator-like, with the facet's columns and trimmed cell texts.
\<close>

lemma generateTqlFromJson_text:
  "generateTqlFromJson d =
       generateTable (table_headers d) (table_rows d) (length (table_rows d)) (js ''table'') @ 10 # 10 #
       generateTable meaning_headers (meaning_rows d) (length (meaning_rows d)) (js ''meaning'') @ 10 # 10 #
       generateTable structure_headers (structure_rows d) (length (structure_rows d)) (js ''structure'') @ 10 # 10 #
       generateTable ambiguity_headers (ambiguity_rows d) (length (ambiguity_rows d)) (js ''ambiguity'') @ 10 # 10 #
       generateTable intent_headers (intent_rows d) (length (intent_rows d)) (js ''intent'') @ 10 # 10 #
       generateTable context_headers (context_rows d) (length (context_rows d)) (js ''context'') @ 10 # 10 #
       generateTable query_headers (query_rows d) (length (query_rows d)) (js ''query'') @ 10 # 10 #
       generateTable tasks_headers (tasks_rows d) (length (tasks_rows d)) (js ''tasks'') @ 10 # 10 #
       generateTable score_headers (score_rows d) (length (score_rows d)) (js ''score'')"
  by (simp only: generateTqlFromJson_def join.simps generateTableSection_headers
      generateMeaningSection_def generateStructureSection_def generateAmbiguitySection_def
      generateIntentSection_def generateContextSection_def generateQuerySection_def
      generateTasksSection_def generateScoreSection_def append.simps append_assoc)

lemma generate_parse:
  assumes "renderableDocument d"
  shows "parseTqlDocumentFromString (generateTqlFromJson d) = Inr (roundTripDocument d)"
proof -
  from assms have wf: "wellFormedHeaders (table_headers d)"
    and r: "renderable (table_headers d) (table_rows d)"
      "renderable meaning_headers (meaning_rows d)"
      "renderable structure_headers (structure_rows d)"
      "renderable ambiguity_headers (ambiguity_rows d)"
      "renderable intent_headers (intent_rows d)"
      "renderable context_headers (context_rows d)"
      "renderable query_headers (query_rows d)"
      "renderable tasks_headers (tasks_rows d)"
      "renderable score_headers (score_rows d)"
    by (simp_all add: renderableDocument_def)
  have lines: "split_str 10 (generateTqlFromJson d) =
       generateTable_lines (table_headers d) (table_rows d) (length (table_rows d)) (js ''table'') @ [] #
       generateTable_lines meaning_headers (meaning_rows d) (length (meaning_rows d)) (js ''meaning'') @ [] #
       generateTable_lines structure_headers (structure_rows d) (length (structure_rows d)) (js ''structure'') @ [] #
       generateTable_lines ambiguity_headers (ambiguity_rows d) (length (ambiguity_rows d)) (js ''ambiguity'') @ [] #
       generateTable_lines intent_headers (intent_rows d) (length (intent_rows d)) (js ''intent'') @ [] #
       generateTable_lines context_headers (context_rows d) (length (context_rows d)) (js ''context'') @ [] #
       generateTable_lines query_headers (query_rows d) (length (query_rows d)) (js ''query'') @ [] #
       generateTable_lines tasks_headers (tasks_rows d) (length (tasks_rows d)) (js ''tasks'') @ [] #
       generateTable_lines score_headers (score_rows d) (length (score_rows d)) (js ''score'')"
    unfolding generateTqlFromJson_text
    by (simp only:
        split_str_generateTable(1) [OF wf r(1) facet_names_no_newline(1)]
        split_str_generateTable(1) [OF fixed_headers_wellFormed(2) r(2) facet_names_no_newline(2)]
        split_str_generateTable(1) [OF fixed_headers_wellFormed(3) r(3) facet_names_no_newline(3)]
        split_str_generateTable(1) [OF fixed_headers_wellFormed(4) r(4) facet_names_no_newline(4)]
        split_str_generateTable(1) [OF fixed_headers_wellFormed(5) r(5) facet_names_no_newline(5)]
        split_str_generateTable(1) [OF fixed_headers_wellFormed(6) r(6) facet_names_no_newline(6)]
        split_str_generateTable(1) [OF fixed_headers_wellFormed(7) r(7) facet_names_no_newline(7)]
        split_str_generateTable(1) [OF fixed_headers_wellFormed(8) r(8) facet_names_no_newline(8)]
        split_str_generateTable(2) [OF fixed_headers_wellFormed(9) r(9) facet_names_no_newline(9)])
  have "\<exists>st. parseLines initialState (split_str 10 (generateTqlFromJson d)) = Inr st
      \<and> doc st = roundTripDocument d"
    unfolding lines
    by (simp only:
        parseLines_section_blank [OF registry_lookup(1) facet_names_not_Nil(1) facet_names_word(1) wf r(1)]
        parseLines_section_blank [OF registry_lookup(2) facet_names_not_Nil(2) facet_names_word(2) fixed_headers_wellFormed(2) r(2)]
        parseLines_section_blank [OF registry_lookup(3) facet_names_not_Nil(3) facet_names_word(3) fixed_headers_wellFormed(3) r(3)]
        parseLines_section_blank [OF registry_lookup(4) facet_names_not_Nil(4) facet_names_word(4) fixed_headers_wellFormed(4) r(4)]
        parseLines_section_blank [OF registry_lookup(5) facet_names_not_Nil(5) facet_names_word(5) fixed_headers_wellFormed(5) r(5)]
        parseLines_section_blank [OF registry_lookup(6) facet_names_not_Nil(6) facet_names_word(6) fixed_headers_wellFormed(6) r(6)]
        parseLines_section_blank [OF registry_lookup(7) facet_names_not_Nil(7) facet_names_word(7) fixed_headers_wellFormed(7) r(7)]
        parseLines_section_blank [OF registry_lookup(8) facet_names_not_Nil(8) facet_names_word(8) fixed_headers_wellFormed(8) r(8)]
        parseLines_section [OF registry_lookup(9) facet_names_not_Nil(9) facet_names_word(9) fixed_headers_wellFormed(9) r(9)]
        parse_state.select_convs push_rows)
      (simp add: initialState_def emptyDocument_def roundTripDocument_def)
  then show ?thesis
    by (auto simp: parseTqlDocumentFromString_def)
qed


text \<open>Rows that come back unchanged.\<close>

lemma cell_Cons: "cell ((k, v) # r) h = (if h = k then v else cell r h)"
  by (simp add: cell_def)

lemma trimmed_row_rebuilt:
  "distinct (map fst r) \<Longrightarrow> list_all (\<lambda>kv. trim (snd kv) = snd kv) r \<Longrightarrow>
   map (\<lambda>h. (h, trim (cell r h))) (map fst r) = r"
proof (induction r)
  case Nil
  then show ?case by simp
next
  case (Cons kv r)
  obtain k v where kv: "kv = (k, v)" by (cases kv)
  from Cons.prems kv have "k \<notin> fst ` set r" by auto
  then have "map (\<lambda>h. (h, trim (cell ((k, v) # r) h))) (map fst r)
      = map (\<lambda>h. (h, trim (cell r h))) (map fst r)"
    by (intro map_cong) (auto simp: cell_Cons)
  with Cons kv show ?case by (simp add: cell_Cons)
qed

lemma roundTripRows_exact:
  assumes "distinct hs" "exactRows hs rows"
  shows "roundTripRows hs rows = rows"
proof -
  have "map (\<lambda>h. (h, trim (cell r h))) hs = r" if "r \<in> set rows" for r
    using that assms trimmed_row_rebuilt [of r]
    by (auto simp: exactRows_def list_all_iff)
  moreover have "filter (\<lambda>r. \<not> isSeparatorLike hs r) rows = rows"
    using assms(2) by (auto simp: exactRows_def list_all_iff)
  ultimately show ?thesis
    by (simp add: roundTripRows_def map_idI)
qed

lemma fixed_headers_distinct:
  "distinct meaning_headers" "distinct structure_headers" "distinct ambiguity_headers"
  "distinct intent_headers" "distinct context_headers" "distinct query_headers"
  "distinct tasks_headers" "distinct score_headers"
  using fixed_headers_wellFormed by (simp_all only: wellFormedHeaders_D(2))

text \<open>
  Claim C1, as amended. Let every cell and table column name of the document be free of
  pipes and line feeds, the table column names be well formed, every row own exactly the
  columns of its facet in their order (the table rows those of the first row), every
  value be free of outer white space, and no row be separator-like. Then parsing the
  rendered document returns the document itself: the padding added by the generator
  never reaches the parsed values.
\<close>

theorem C1_round_trip_of_exact_documents:
  assumes "renderableDocument d" and "exactDocument d"
  shows "parseTqlDocumentFromString (generateTqlFromJson d) = Inr d"
proof -
  from assms(1) have "distinct (table_headers d)"
    by (simp add: renderableDocument_def wellFormedHeaders_D(2))
  with assms(2) have "roundTripDocument d = d"
    by (simp add: roundTripDocument_def exactDocument_def facetTables_def roundTripRows_exact
        fixed_headers_distinct)
  with generate_parse [OF assms(1)] show ?thesis by simp
qed

lemma in_set_dropWhile: "x \<in> set s \<Longrightarrow> \<not> P x \<Longrightarrow> x \<in> set (dropWhile P s)"
  by (induction s) auto

text \<open>Rows that are dropped.\<close>

lemma member_rev_not_Nil: "x \<in> set xs \<Longrightarrow> rev xs \<noteq> []"
  by (cases xs) auto

lemma trim_not_Nil:
  assumes "x \<in> set s" "\<not> isWhiteSpace x"
  shows "trim s \<noteq> []"
proof -
  from assms have "x \<in> set (rev (dropWhile isWhiteSpace s))"
    by (simp add: in_set_dropWhile)
  then have "x \<in> set (dropWhile isWhiteSpace (rev (dropWhile isWhiteSpace s)))"
    using assms(2) by (rule in_set_dropWhile)
  then show ?thesis
    unfolding trim_def by (rule member_rev_not_Nil)
qed

lemma cell_of_rebuilt: "h \<in> set hs \<Longrightarrow> cell (map (\<lambda>h. (h, g h)) hs) h = g h"
  by (induction hs) (auto simp: cell_Cons)

lemma roundTripRows_not_allEmpty:
  assumes "r' \<in> set (roundTripRows hs rows)"
  shows "\<not> allEmpty hs r'"
proof -
  from assms obtain r where r: "\<not> isSeparatorLike hs r"
    and r': "r' = map (\<lambda>h. (h, trim (cell r h))) hs"
    by (auto simp: roundTripRows_def)
  from r obtain h c where h: "h \<in> set hs" "c \<in> set (cell r h)" "\<not> isWhiteSpace c"
    by (auto simp: isSeparatorLike_def list_all_iff)
  then have "trim (cell r h) \<noteq> []" by (intro trim_not_Nil)
  with h(1) show ?thesis
    by (auto simp: allEmpty_def list_all_iff r' cell_of_rebuilt)
qed

lemma allEmpty_dropped:
  assumes "r \<in> set rows" "allEmpty hs r"
  shows "length (roundTripRows hs rows) < length rows"
proof -
  from assms(2) have "isSeparatorLike hs r"
    by (auto simp: allEmpty_def isSeparatorLike_def list_all_iff)
  with assms(1) show ?thesis
    by (auto simp: roundTripRows_def intro!: length_filter_less)
qed

text \<open>
  Let every cell and table column name of the document be free of pipes and line feeds
  and the table column names be well formed. Then parsing the rendered document returns,
  in every facet, the rows that are not separator-like: no returned row has all its
  rendered columns empty, and a facet that held such a row comes back with fewer rows.
\<close>

lemma renderable_all_empty_rows_dropped:
  assumes "renderableDocument d"
  shows "parseTqlDocumentFromString (generateTqlFromJson d) = Inr (roundTripDocument d)
     \<and> (\<forall>(name, hs, rows) \<in> set (facetTables d).
          (\<forall>r' \<in> set (roundTripRows hs rows). \<not> allEmpty hs r')
          \<and> (\<forall>r \<in> set rows. allEmpty hs r \<longrightarrow> length (roundTripRows hs rows) < length rows))"
  using generate_parse [OF assms] roundTripRows_not_allEmpty allEmpty_dropped
  by blast

text \<open>
  The lines of a rendered document are the lines of its nine tables and the blank lines
  between them; a line of a table that holds no line feed is one of them.
\<close>

lemma split_str_sep_Cons: "split_str c (c # ys) = [] # split_str c ys"
  using split_str_append [of c "[]" ys] by (simp add: split_str_no_separator)

lemma member_split_str_join:
  "l \<in> set ls \<Longrightarrow> c \<notin> set l \<Longrightarrow> l \<in> set (split_str c (join [c] ls))"
proof (induction ls)
  case Nil
  then show ?case by simp
next
  case (Cons x xs)
  show ?case
  proof (cases "xs = []")
    case True
    with Cons.prems show ?thesis by (simp add: split_str_no_separator)
  next
    case False
    then have j: "join [c] (x # xs) = x @ c # join [c] xs"
      by (simp add: join_Cons_Cons)
    show ?thesis
    proof (cases "l = x")
      case True
      with Cons.prems(2) show ?thesis
        unfolding j split_str_append by (simp add: split_str_no_separator)
    next
      case False
      with Cons show ?thesis
        unfolding j split_str_append by simp
    qed
  qed
qed

lemma generateTqlFromJson_lines:
  "set (split_str 10 (generateTqlFromJson d)) =
     insert []
      (\<Union>(name, hs, rows) \<in> set (facetTables d).
         set (split_str 10 (generateTable hs rows (length rows) name)))"
  by (simp only: generateTqlFromJson_text split_str_append split_str_sep_Cons set_append
      facetTables_def list.set UN_insert UN_empty prod.case Un_insert_left Un_insert_right
      insert_absorb2 Un_empty_right Un_assoc)

lemma all_empty_line:
  assumes "allEmpty hs r"
  shows "list_all (\<lambda>c. c = 124 \<or> c = 32) (dataRow hs (colWidths hs rows) r)"
    and "isSeparatorRow (dataRow hs (colWidths hs rows) r)"
proof -
  define f where "f = (\<lambda>header. max (length header)
      (if length rows > 0 then Math_max (map (\<lambda>r. length (cell r header)) rows) else 0))"
  have cw: "colWidths hs rows = map f hs"
    by (simp add: colWidths_def f_def)
  from assms have c: "\<forall>h \<in> set hs. cell r h = []"
    by (simp add: allEmpty_def list_all_iff)
  have "list_all (\<lambda>c. c = 124 \<or> c = 32) (join (js '' | '') (map (\<lambda>h. padEnd (cell r h) (f h)) hs))"
    using c by (subst list_all_join) (auto simp: padEnd_def list_all_iff)
  then show "list_all (\<lambda>c. c = 124 \<or> c = 32) (dataRow hs (colWidths hs rows) r)"
    unfolding cw dataRow_map by simp
  show "isSeparatorRow (dataRow hs (colWidths hs rows) r)"
    unfolding cw dataRow_map isSeparatorRow_rendered
    using c by (auto simp: padEnd_def list_all_iff isWhiteSpace_def)
qed

lemma parseLine_separator_row:
  assumes "isSeparatorRow l" and "list_all (\<lambda>c. c = 124 \<or> c = 32) l"
  shows "parseLine st l = Inr (if currentFacet st = None then st else st\<lparr>headerParsed := True\<rparr>)"
proof -
  from assms(1) have l: "l \<noteq> []" "hd l = 124" "last l = 124"
    by (auto simp: isSeparatorRow_def)
  note p = pipe_line [OF l]
  show ?thesis
    using assms(1) l(1) p(2)
    by (cases "currentFacet st") (simp_all add: parseLine_def p(1))
qed

text \<open>
  Claim C10. Let a facet of a document hold a row whose values for all the rendered
  columns of the facet are empty strings. Whatever else the document holds, the
  generator renders that row as a line of pipes and spaces only; this line is one of the
  lines of the rendered document; \<open>isSeparatorRow\<close> accepts it; and in every state of
  the parser, reading the line returns without an error and leaves the parsed document
  as it was, so the row is never appended.
\<close>

theorem C10_all_empty_row_never_appended:
  assumes "(name, hs, rows) \<in> set (facetTables d)"
    and "r \<in> set rows"
    and "allEmpty hs r"
  shows "list_all (\<lambda>c. c = 124 \<or> c = 32) (dataRow hs (colWidths hs rows) r)
     \<and> dataRow hs (colWidths hs rows) r \<in> set (split_str 10 (generateTqlFromJson d))
     \<and> isSeparatorRow (dataRow hs (colWidths hs rows) r)
     \<and> (\<forall>st. \<exists>st'. parseLine st (dataRow hs (colWidths hs rows) r) = Inr st'
                    \<and> doc st' = doc st)"
proof -
  let ?l = "dataRow hs (colWidths hs rows) r"
  note e = all_empty_line [OF assms(3), of rows]
  from e(1) have n: "10 \<notin> set ?l"
    by (auto simp: list_all_iff)
  from assms(2) have "?l \<in> set (generateTable_lines hs rows (length rows) name)"
    by (simp add: generateTable_lines_def)
  then have "?l \<in> set (split_str 10 (generateTable hs rows (length rows) name))"
    unfolding generateTable_def using n by (rule member_split_str_join)
  with assms(1) have m: "?l \<in> set (split_str 10 (generateTqlFromJson d))"
    unfolding generateTqlFromJson_lines by blast
  have "\<exists>st'. parseLine st ?l = Inr st' \<and> doc st' = doc st" for st
    unfolding parseLine_separator_row [OF e(2) e(1)] by simp
  with e m show ?thesis by blast
qed

section \<open>Documents that do not come back as they were\<close>

lemmas gen_eval = generateTqlFromJson_def generateTableSection_def generateMeaningSection_def
  generateStructureSection_def generateAmbiguitySection_def generateIntentSection_def
  generateContextSection_def generateQuerySection_def generateTasksSection_def
  generateScoreSection_def generateTable_def generateTable_lines_def facetHeaderLine_def
  Number_toString.simps headerRow_def separator_def dataRow_def colWidths_def padEnd_def
  Math_max_def cell_def Object_keys_def isArrayIndex_def isDigit_def decimalValue_def
  meaning_headers_def structure_headers_def ambiguity_headers_def intent_headers_def
  context_headers_def query_headers_def tasks_headers_def score_headers_def


text \<open>
  A document with one table row, after \<open>insertRow\<close> of a context row with the value
  \<open>a|b\<close>: the rendered line has one pipe more than the header row, and the value
  parsed back is \<open>a\<close>.
\<close>

lemma pipe_example_lines:
  "split_str 10
     (generateTqlFromJson
        (insertRowInMemory
           (emptyDocument\<lparr>table_rows :=
              [[(js ''id'', js ''1''), (js ''product'', js ''Widget''),
                (js ''price'', js ''9.99'')]]\<rparr>)
           Context [(js ''index'', js ''1''), (js ''key'', js ''note''), (js ''value'', js ''a|b'')]))
   = [js ''@table[1]:'',
      js ''| id | product | price |'',
      js ''|----|---------|-------|'',
      js ''| 1  | Widget  | 9.99  |'',
      [],
      js ''@meaning[0]:'',
      js ''| index | column | definition |'',
      js ''|-------|--------|------------|'',
      [],
      js ''@structure[0]:'',
      js ''| index | column | nullAllowed | dataType | minValue | maxValue | format |'',
      js ''|-------|--------|-------------|----------|----------|----------|--------|'',
      [],
      js ''@ambiguity[0]:'',
      js ''| index | query_trigger | ambiguity_type | ambiguity_risk |'',
      js ''|-------|---------------|----------------|----------------|'',
      [],
      js ''@intent[0]:'',
      js ''| index | query_trigger | clarifying_question | options | user_response | user_confirmed |'',
      js ''|-------|---------------|---------------------|---------|---------------|----------------|'',
      [],
      js ''@context[1]:'',
      js ''| index | key  | value |'',
      js ''|-------|------|-------|'',
      js ''| 1     | note | a|b   |'',
      [],
      js ''@query[0]:'',
      js ''| index | user_message | timestamp_utc |'',
      js ''|-------|--------------|---------------|'',
      [],
      js ''@tasks[0]:'',
      js ''| index | name | description | formula |'',
      js ''|-------|------|-------------|---------|'',
      [],
      js ''@score[0]:'',
      js ''| index | measure | value |'',
      js ''|-------|---------|-------|'']"
proof -
  have "generateTqlFromJson
        (insertRowInMemory
           (emptyDocument\<lparr>table_rows :=
              [[(js ''id'', js ''1''), (js ''product'', js ''Widget''),
                (js ''price'', js ''9.99'')]]\<rparr>)
           Context [(js ''index'', js ''1''), (js ''key'', js ''note''), (js ''value'', js ''a|b'')])
      = join [10] [js ''@table[1]:'',
      js ''| id | product | price |'',
      js ''|----|---------|-------|'',
      js ''| 1  | Widget  | 9.99  |'',
      [],
      js ''@meaning[0]:'',
      js ''| index | column | definition |'',
      js ''|-------|--------|------------|'',
      [],
      js ''@structure[0]:'',
      js ''| index | column | nullAllowed | dataType | minValue | maxValue | format |'',
      js ''|-------|--------|-------------|----------|----------|----------|--------|'',
      [],
      js ''@ambiguity[0]:'',
      js ''| index | query_trigger | ambiguity_type | ambiguity_risk |'',
      js ''|-------|---------------|----------------|----------------|'',
      [],
      js ''@intent[0]:'',
      js ''| index | query_trigger | clarifying_question | options | user_response | user_confirmed |'',
      js ''|-------|---------------|---------------------|---------|---------------|----------------|'',
      [],
      js ''@context[1]:'',
      js ''| index | key  | value |'',
      js ''|-------|------|-------|'',
      js ''| 1     | note | a|b   |'',
      [],
      js ''@query[0]:'',
      js ''| index | user_message | timestamp_utc |'',
      js ''|-------|--------------|---------------|'',
      [],
      js ''@tasks[0]:'',
      js ''| index | name | description | formula |'',
      js ''|-------|------|-------------|---------|'',
      [],
      js ''@score[0]:'',
      js ''| index | measure | value |'',
      js ''|-------|---------|-------|'']"
    by (simp add: gen_eval insertRowInMemory_def emptyDocument_def)
  then show ?thesis
    by (simp only:) (rule split_str_join; simp)
qed

lemma pipe_example_parsed:
  "parseTqlDocumentFromString
     (generateTqlFromJson
        (insertRowInMemory
           (emptyDocument\<lparr>table_rows :=
              [[(js ''id'', js ''1''), (js ''product'', js ''Widget''),
                (js ''price'', js ''9.99'')]]\<rparr>)
           Context [(js ''index'', js ''1''), (js ''key'', js ''note''), (js ''value'', js ''a|b'')]))
   = Inr (emptyDocument\<lparr>
            context_rows :=
              [[(js ''index'', js ''1''), (js ''key'', js ''note''), (js ''value'', js ''a'')]],
            table_rows :=
              [[(js ''id'', js ''1''), (js ''product'', js ''Widget''),
                (js ''price'', js ''9.99'')]]\<rparr>)"
  unfolding parseTqlDocumentFromString_def pipe_example_lines
  by (simp add: eval_defs)

text \<open>
  Claim C1 as stated holds for every document produced by row operations. The document
  below has one table row and empty facets otherwise, and receives by \<open>insertRow\<close> a
  context row whose value holds a pipe; rendering and parsing it does not return it.
\<close>

theorem C1_pipe_in_value_lost:
  "parseTqlDocumentFromString
     (generateTqlFromJson
        (insertRowInMemory
           (emptyDocument\<lparr>table_rows :=
              [[(js ''id'', js ''1''), (js ''product'', js ''Widget''),
                (js ''price'', js ''9.99'')]]\<rparr>)
           Context [(js ''index'', js ''1''), (js ''key'', js ''note''), (js ''value'', js ''a|b'')]))
   \<noteq> Inr (insertRowInMemory
           (emptyDocument\<lparr>table_rows :=
              [[(js ''id'', js ''1''), (js ''product'', js ''Widget''),
                (js ''price'', js ''9.99'')]]\<rparr>)
           Context [(js ''index'', js ''1''), (js ''key'', js ''note''), (js ''value'', js ''a|b'')])"
  unfolding pipe_example_parsed
  by (simp add: insertRowInMemory_def emptyDocument_def)

lemmas wf_eval = renderableDocument_def renderable_def wellFormedHeaders_def cleanText_def
  table_headers_def Object_keys_def isArrayIndex_def isDigit_def trim_def isWhiteSpace_def
  cell_def Object_prototype_functions_def exactDocument_def facetTables_def exactRows_def
  isSeparatorLike_def allEmpty_def roundTripDocument_def roundTripRows_def
  meaning_headers_def structure_headers_def ambiguity_headers_def intent_headers_def
  context_headers_def query_headers_def tasks_headers_def score_headers_def

text \<open>
  A document with a table row, a meaning row and a context row that satisfies the
  hypotheses of the amended claim, and comes back as it was.
\<close>

theorem C1_witness:
  "renderableDocument
     \<lparr>ambiguity_rows = [],
      context_rows = [[(js ''index'', js ''1''), (js ''key'', js ''currency''), (js ''value'', js ''USD'')]],
      intent_rows = [],
      meaning_rows =
        [[(js ''index'', js ''1''), (js ''column'', js ''id''),
          (js ''definition'', js ''Unique identifier'')]],
      query_rows = [], score_rows = [], structure_rows = [],
      table_rows = [[(js ''id'', js ''1''), (js ''product'', js ''Widget''), (js ''price'', js ''9.99'')]],
      tasks_rows = []\<rparr>
   \<and> exactDocument
     \<lparr>ambiguity_rows = [],
      context_rows = [[(js ''index'', js ''1''), (js ''key'', js ''currency''), (js ''value'', js ''USD'')]],
      intent_rows = [],
      meaning_rows =
        [[(js ''index'', js ''1''), (js ''column'', js ''id''),
          (js ''definition'', js ''Unique identifier'')]],
      query_rows = [], score_rows = [], structure_rows = [],
      table_rows = [[(js ''id'', js ''1''), (js ''product'', js ''Widget''), (js ''price'', js ''9.99'')]],
      tasks_rows = []\<rparr>
   \<and> parseTqlDocumentFromString (generateTqlFromJson
     \<lparr>ambiguity_rows = [],
      context_rows = [[(js ''index'', js ''1''), (js ''key'', js ''currency''), (js ''value'', js ''USD'')]],
      intent_rows = [],
      meaning_rows =
        [[(js ''index'', js ''1''), (js ''column'', js ''id''),
          (js ''definition'', js ''Unique identifier'')]],
      query_rows = [], score_rows = [], structure_rows = [],
      table_rows = [[(js ''id'', js ''1''), (js ''product'', js ''Widget''), (js ''price'', js ''9.99'')]],
      tasks_rows = []\<rparr>)
     = Inr \<lparr>ambiguity_rows = [],
      context_rows = [[(js ''index'', js ''1''), (js ''key'', js ''currency''), (js ''value'', js ''USD'')]],
      intent_rows = [],
      meaning_rows =
        [[(js ''index'', js ''1''), (js ''column'', js ''id''),
          (js ''definition'', js ''Unique identifier'')]],
      query_rows = [], score_rows = [], structure_rows = [],
      table_rows = [[(js ''id'', js ''1''), (js ''product'', js ''Widget''), (js ''price'', js ''9.99'')]],
      tasks_rows = []\<rparr>"
proof -
  let ?d = "\<lparr>ambiguity_rows = [],
      context_rows = [[(js ''index'', js ''1''), (js ''key'', js ''currency''), (js ''value'', js ''USD'')]],
      intent_rows = [],
      meaning_rows =
        [[(js ''index'', js ''1''), (js ''column'', js ''id''),
          (js ''definition'', js ''Unique identifier'')]],
      query_rows = [], score_rows = [], structure_rows = [],
      table_rows = [[(js ''id'', js ''1''), (js ''product'', js ''Widget''), (js ''price'', js ''9.99'')]],
      tasks_rows = []\<rparr>"
  have r: "renderableDocument ?d" by (simp add: wf_eval)
  have e: "exactDocument ?d" by (simp add: wf_eval)
  from C1_round_trip_of_exact_documents [OF r e] r e show ?thesis by blast
qed

text \<open>
  A context facet with an all-empty row and a row whose only text is \<open>|x\<close> in the last
  column: the pipe shifts the cells of the second row, whose first three cells are then
  empty.
\<close>

lemma pipe_shifts_cells_lines:
  "split_str 10
     (generateTqlFromJson
        (emptyDocument\<lparr>context_rows :=
           [[(js ''index'', []), (js ''key'', []), (js ''value'', [])],
            [(js ''index'', []), (js ''key'', []), (js ''value'', js ''|x'')]]\<rparr>))
   = [js ''@table[0]:'',
      js ''| index |'',
      js ''|-------|'',
      [],
      js ''@meaning[0]:'',
      js ''| index | column | definition |'',
      js ''|-------|--------|------------|'',
      [],
      js ''@structure[0]:'',
      js ''| index | column | nullAllowed | dataType | minValue | maxValue | format |'',
      js ''|-------|--------|-------------|----------|----------|----------|--------|'',
      [],
      js ''@ambiguity[0]:'',
      js ''| index | query_trigger | ambiguity_type | ambiguity_risk |'',
      js ''|-------|---------------|----------------|----------------|'',
      [],
      js ''@intent[0]:'',
      js ''| index | query_trigger | clarifying_question | options | user_response | user_confirmed |'',
      js ''|-------|---------------|---------------------|---------|---------------|----------------|'',
      [],
      js ''@context[2]:'',
      js ''| index | key | value |'',
      js ''|-------|-----|-------|'',
      js ''|       |     |       |'',
      js ''|       |     | |x    |'',
      [],
      js ''@query[0]:'',
      js ''| index | user_message | timestamp_utc |'',
      js ''|-------|--------------|---------------|'',
      [],
      js ''@tasks[0]:'',
      js ''| index | name | description | formula |'',
      js ''|-------|------|-------------|---------|'',
      [],
      js ''@score[0]:'',
      js ''| index | measure | value |'',
      js ''|-------|---------|-------|'']"
proof -
  have "generateTqlFromJson
        (emptyDocument\<lparr>context_rows :=
           [[(js ''index'', []), (js ''key'', []), (js ''value'', [])],
            [(js ''index'', []), (js ''key'', []), (js ''value'', js ''|x'')]]\<rparr>)
      = join [10] [js ''@table[0]:'',
      js ''| index |'',
      js ''|-------|'',
      [],
      js ''@meaning[0]:'',
      js ''| index | column | definition |'',
      js ''|-------|--------|------------|'',
      [],
      js ''@structure[0]:'',
      js ''| index | column | nullAllowed | dataType | minValue | maxValue | format |'',
      js ''|-------|--------|-------------|----------|----------|----------|--------|'',
      [],
      js ''@ambiguity[0]:'',
      js ''| index | query_trigger | ambiguity_type | ambiguity_risk |'',
      js ''|-------|---------------|----------------|----------------|'',
      [],
      js ''@intent[0]:'',
      js ''| index | query_trigger | clarifying_question | options | user_response | user_confirmed |'',
      js ''|-------|---------------|---------------------|---------|---------------|----------------|'',
      [],
      js ''@context[2]:'',
      js ''| index | key | value |'',
      js ''|-------|-----|-------|'',
      js ''|       |     |       |'',
      js ''|       |     | |x    |'',
      [],
      js ''@query[0]:'',
      js ''| index | user_message | timestamp_utc |'',
      js ''|-------|--------------|---------------|'',
      [],
      js ''@tasks[0]:'',
      js ''| index | name | description | formula |'',
      js ''|-------|------|-------------|---------|'',
      [],
      js ''@score[0]:'',
      js ''| index | measure | value |'',
      js ''|-------|---------|-------|'']"
    by (simp add: gen_eval emptyDocument_def)
  then show ?thesis
    by (simp only:) (rule split_str_join; simp)
qed

text \<open>
  For the document above the all-empty first row is skipped, and the second row, whose
  value holds a pipe, is read back with its three columns empty.
\<close>

lemma shifted_cells_read_as_empty_row:
  "allEmpty context_headers [(js ''index'', []), (js ''key'', []), (js ''value'', [])]
   \<and> parseTqlDocumentFromString
      (generateTqlFromJson
        (emptyDocument\<lparr>context_rows :=
           [[(js ''index'', []), (js ''key'', []), (js ''value'', [])],
            [(js ''index'', []), (js ''key'', []), (js ''value'', js ''|x'')]]\<rparr>))
     = Inr (emptyDocument\<lparr>context_rows :=
              [[(js ''index'', []), (js ''key'', []), (js ''value'', [])]]\<rparr>)"
  unfolding parseTqlDocumentFromString_def pipe_shifts_cells_lines
  by (simp add: eval_defs allEmpty_def context_headers_def cell_def)

text \<open>
  A document whose context facet holds an all-empty row and an ordinary row: the row is
  rendered as a line of pipes and spaces, a separator row for the parser, and the parsed
  facet holds the ordinary row alone.
\<close>

theorem C10_witness:
  "(js ''context'', context_headers,
      [[(js ''index'', []), (js ''key'', []), (js ''value'', [])],
       [(js ''index'', js ''1''), (js ''key'', js ''currency''), (js ''value'', js ''USD'')]])
     \<in> set (facetTables
        (emptyDocument\<lparr>context_rows :=
           [[(js ''index'', []), (js ''key'', []), (js ''value'', [])],
            [(js ''index'', js ''1''), (js ''key'', js ''currency''), (js ''value'', js ''USD'')]]\<rparr>))
   \<and> allEmpty context_headers [(js ''index'', []), (js ''key'', []), (js ''value'', [])]
   \<and> dataRow context_headers
        (colWidths context_headers
          [[(js ''index'', []), (js ''key'', []), (js ''value'', [])],
           [(js ''index'', js ''1''), (js ''key'', js ''currency''), (js ''value'', js ''USD'')]])
        [(js ''index'', []), (js ''key'', []), (js ''value'', [])]
       = js ''|       |          |       |''
   \<and> js ''|       |          |       |'' \<in> set (split_str 10 (generateTqlFromJson
        (emptyDocument\<lparr>context_rows :=
           [[(js ''index'', []), (js ''key'', []), (js ''value'', [])],
            [(js ''index'', js ''1''), (js ''key'', js ''currency''), (js ''value'', js ''USD'')]]\<rparr>)))
   \<and> isSeparatorRow (js ''|       |          |       |'')
   \<and> parseTqlDocumentFromString
      (generateTqlFromJson
        (emptyDocument\<lparr>context_rows :=
           [[(js ''index'', []), (js ''key'', []), (js ''value'', [])],
            [(js ''index'', js ''1''), (js ''key'', js ''currency''), (js ''value'', js ''USD'')]]\<rparr>))
     = Inr (emptyDocument\<lparr>context_rows :=
              [[(js ''index'', js ''1''), (js ''key'', js ''currency''),
                (js ''value'', js ''USD'')]]\<rparr>)"
proof -
  let ?r = "[(js ''index'', []), (js ''key'', []), (js ''value'', [])]"
  let ?rows = "[?r,
       [(js ''index'', js ''1''), (js ''key'', js ''currency''), (js ''value'', js ''USD'')]]"
  let ?d = "emptyDocument\<lparr>context_rows := ?rows\<rparr>"
  have m: "(js ''context'', context_headers, ?rows) \<in> set (facetTables ?d)"
    by (simp add: facetTables_def)
  have i: "?r \<in> set ?rows" by simp
  have a: "allEmpty context_headers ?r"
    by (simp add: wf_eval)
  have l: "dataRow context_headers (colWidths context_headers ?rows) ?r
       = js ''|       |          |       |''"
    by (simp add: gen_eval)
  have r: "renderableDocument ?d" by (simp add: wf_eval emptyDocument_def)
  have t: "roundTripDocument ?d = emptyDocument\<lparr>context_rows :=
              [[(js ''index'', js ''1''), (js ''key'', js ''currency''),
                (js ''value'', js ''USD'')]]\<rparr>"
    by (simp add: wf_eval emptyDocument_def)
  have p: "parseTqlDocumentFromString (generateTqlFromJson ?d) = Inr (roundTripDocument ?d)"
    using r by (rule generate_parse)
  from C10_all_empty_row_never_appended [OF m i a]
  have "dataRow context_headers (colWidths context_headers ?rows) ?r
          \<in> set (split_str 10 (generateTqlFromJson ?d))
     \<and> isSeparatorRow (dataRow context_headers (colWidths context_headers ?rows) ?r)"
    by blast
  then have "js ''|       |          |       |'' \<in> set (split_str 10 (generateTqlFromJson ?d))
     \<and> isSeparatorRow (js ''|       |          |       |'')"
    unfolding l .
  with m a l p t show ?thesis by (simp only:) 
qed

section \<open>Diff sections of a conversation\<close>

text \<open>
  What the loop stores: the pending item, if it is a document with a body, then the
  document sections of the lines still to read. A diff item stores nothing, so the loop
  reads the lines without the diff sections as it reads all the lines.
\<close>

lemma saveItem_diff:
  "\<not> startsWith kd (js ''#document'') \<Longrightarrow> saveItem sq (Some kd) c = Inr sq"
  by (simp add: saveItem_def addItemToSequence_def)

lemma saveItem_section:
  assumes "saveItem sq key content = Inr sq'"
  shows "map (\<lambda>(k, d). (k, Inr d)) sq' =
     map (\<lambda>(k, d). (k, Inr d)) sq @
     map (\<lambda>(k, body). (k, parseTqlDocumentFromString (join [10] body)))
       (filter (\<lambda>(k, body). body \<noteq> [])
          (case key of None \<Rightarrow> []
           | Some k \<Rightarrow> if startsWith k (js ''#document'') then [(k, content)] else []))"
  using assms
  by (auto simp: saveItem_def addItemToSequence_def split: option.splits if_splits sum.splits)

lemma conversationLoop_sections:
  "conversationLoop sq key content ls = Inr sq' \<Longrightarrow>
   map (\<lambda>(k, d). (k, Inr d)) sq' =
     map (\<lambda>(k, d). (k, Inr d)) sq @
     map (\<lambda>(k, body). (k, parseTqlDocumentFromString (join [10] body)))
       (filter (\<lambda>(k, body). body \<noteq> [])
          ((case key of None \<Rightarrow> []
            | Some k \<Rightarrow>
                if startsWith k (js ''#document'')
                then [(k, content @ takeWhile (\<lambda>l'. docMatch l' = None \<and> diffMatch l' = None) ls)]
                else [])
           @ documentSections ls))"
proof (induction ls arbitrary: sq key content)
  case Nil
  from saveItem_section [of sq key content sq'] Nil show ?case
    by (simp split: option.splits)
next
  case (Cons l ls)
  show ?case
  proof (cases "docMatch l")
    case (Some k)
    from Cons.prems Some obtain sq1 where s: "saveItem sq key content = Inr sq1"
      and r: "conversationLoop sq1 (Some k) [] ls = Inr sq'"
      by (auto split: sum.splits)
    from Cons.IH [OF r] saveItem_section [OF s] docMatch_key [OF Some] Some
    show ?thesis
      by (simp split: option.splits)
  next
    case None
    show ?thesis
    proof (cases "diffMatch l")
      case (Some k)
      from Cons.prems None Some obtain sq1 where s: "saveItem sq key content = Inr sq1"
        and r: "conversationLoop sq1 (Some k) [] ls = Inr sq'"
        by (auto split: sum.splits)
      from Cons.IH [OF r] saveItem_section [OF s] diffMatch_key [OF Some] Some None
      show ?thesis
        by (simp split: option.splits)
    next
      case dNone: None
      show ?thesis
      proof (cases key)
        case kNone: None
        with Cons.prems None dNone have r: "conversationLoop sq None content ls = Inr sq'"
          by simp
        from Cons.IH [OF r] None dNone kNone show ?thesis
          by simp
      next
        case (Some k)
        with Cons.prems None dNone
        have r: "conversationLoop sq (Some k) (content @ [l]) ls = Inr sq'"
          by simp
        from Cons.IH [OF r] None dNone Some show ?thesis
          by simp
      qed
    qed
  qed
qed

lemma conversationLoop_withoutDiffSections:
  "conversationLoop sq key content (withoutDiffSections False ls)
     = conversationLoop sq key content ls"
  "\<not> startsWith kd (js ''#document'') \<Longrightarrow>
   conversationLoop sq key content (withoutDiffSections True ls)
     = (case saveItem sq key content of
          Inl e \<Rightarrow> Inl e
        | Inr sq1 \<Rightarrow> conversationLoop sq1 (Some kd) c ls)"
proof (induction ls arbitrary: sq key content kd c)
  case Nil
  {
    case 1
    show ?case by simp
  next
    case 2
    then show ?case by (simp add: saveItem_diff split: sum.splits)
  }
next
  case (Cons l ls)
  {
    case 1
    show ?case
    proof (cases "docMatch l")
      case (Some k)
      then show ?thesis by (simp add: Cons.IH(1) split: sum.splits)
    next
      case None
      show ?thesis
      proof (cases "diffMatch l")
        case (Some k)
        from diffMatch_key [OF Some] have "\<not> startsWith k (js ''#document'')" .
        from Cons.IH(2) [OF this, of sq key content "[]"] None Some show ?thesis
          by simp
      next
        case dNone: None
        with None show ?thesis by (simp add: Cons.IH(1))
      qed
    qed
  next
    case 2
    show ?case
    proof (cases "docMatch l")
      case (Some k)
      with 2 show ?thesis
        by (simp add: Cons.IH(1) saveItem_diff split: sum.splits)
    next
      case None
      show ?thesis
      proof (cases "diffMatch l")
        case (Some k)
        from diffMatch_key [OF Some] have "\<not> startsWith k (js ''#document'')" .
        from Cons.IH(2) [OF this, of sq key content "[]"] None Some 2 show ?thesis
          by (simp add: saveItem_diff split: sum.splits)
      next
        case dNone: None
        from Cons.IH(2) [OF 2, of sq key content "c @ [l]"] None dNone show ?thesis
          by (simp split: sum.splits)
      qed
    qed
  }
qed

lemma split_str_free: "l \<in> set (split_str c s) \<Longrightarrow> c \<notin> set l"
proof (induction s arbitrary: l)
  case Nil
  then show ?case by simp
next
  case (Cons x xs)
  then show ?case
    by (cases "split_str c xs") (auto split: if_splits)
qed

lemma withoutDiffSections_subset: "set (withoutDiffSections b ls) \<subseteq> set ls"
  by (induction b ls rule: withoutDiffSections.induct) auto

lemma split_str_hd_tl: "hd (split_str c s) # tl (split_str c s) = split_str c s"
  by (simp add: split_str_not_Nil)

lemma split_str_without_diff:
  "split_str 10 (join [10] (hd (split_str 10 content)
      # withoutDiffSections False (tl (split_str 10 content))))
   = hd (split_str 10 content) # withoutDiffSections False (tl (split_str 10 content))"
proof (rule split_str_join)
  show "hd (split_str 10 content) # withoutDiffSections False (tl (split_str 10 content)) \<noteq> []"
    by simp
  have "set (hd (split_str 10 content) # withoutDiffSections False (tl (split_str 10 content)))
      \<subseteq> set (hd (split_str 10 content) # tl (split_str 10 content))"
    using withoutDiffSections_subset [of False "tl (split_str 10 content)"] by auto
  then show "\<forall>l \<in> set (hd (split_str 10 content)
      # withoutDiffSections False (tl (split_str 10 content))). 10 \<notin> set l"
    unfolding split_str_hd_tl using split_str_free by blast
qed

text \<open>
  Claim C6, as amended. In a conversation text, one whose first line is a
  \<open>#conversation[N]:\<close> header, the parser drops a diff section, header and body: the
  text without its diff sections parses to the same result, conversation or error; and
  the entries of a parsed conversation are, in the order of the text, the document
  sections that have a body, each keyed by its header and holding the document parsed
  from the lines between that header and the next document or diff header. No entry
  stands for a diff section.
\<close>

theorem C6_diff_sections_dropped:
  assumes "conversationMatch (hd (split_str 10 content)) = Some ds"
  shows "parseTqlConversationFromString
       (join [10] (hd (split_str 10 content)
          # withoutDiffSections False (tl (split_str 10 content))))
     = parseTqlConversationFromString content
   \<and> (\<forall>conv. parseTqlConversationFromString content = Inr conv \<longrightarrow>
        map (\<lambda>(k, d). (k, Inr d)) (sequence conv) =
          map (\<lambda>(k, body). (k, parseTqlDocumentFromString (join [10] body)))
            (filter (\<lambda>(k, body). body \<noteq> [])
               (documentSections (tl (split_str 10 content)))))"
proof (intro conjI allI impI)
  show "parseTqlConversationFromString
       (join [10] (hd (split_str 10 content)
          # withoutDiffSections False (tl (split_str 10 content))))
     = parseTqlConversationFromString content"
    using assms
    by (simp add: parseTqlConversationFromString_def [of "join [10] (hd (split_str 10 content)
          # withoutDiffSections False (tl (split_str 10 content)))"]
        parseTqlConversationFromString_def [of content]
        split_str_without_diff conversationLoop_withoutDiffSections(1))
next
  fix conv
  assume p: "parseTqlConversationFromString content = Inr conv"
  with assms obtain sq where l: "conversationLoop [] None [] (tl (split_str 10 content)) = Inr sq"
    and c: "conv = \<lparr>sequence = sq\<rparr>"
    by (auto simp: parseTqlConversationFromString_def Let_def split: sum.splits if_splits)
  from conversationLoop_sections [OF l] c
  show "map (\<lambda>(k, d). (k, Inr d)) (sequence conv) =
          map (\<lambda>(k, body). (k, parseTqlDocumentFromString (join [10] body)))
            (filter (\<lambda>(k, body). body \<noteq> [])
               (documentSections (tl (split_str 10 content))))"
    by simp
qed

text \<open>
  A conversation text with one document section and one diff section parses to the
  document entry alone.
\<close>

lemma conversation_with_diff_section:
  "parseTqlConversationFromString
     (js ''#conversation[1]:'' @ [10, 10] @ js ''#document[+0]:'' @ [10] @
      js ''@table[0]:'' @ [10] @ js ''| index |'' @ [10] @ js ''|-------|'' @ [10, 10] @
      js ''$diff[+0'' @ [8594] @ js ''+1]:'' @ [10] @ js ''TQL DIFF'')
   = Inr \<lparr>sequence = [(js ''#document[+0]'', emptyDocument)]\<rparr>"
  by (simp add: conv_defs eval_defs)

text \<open>
  Claim C6 as stated says that the diff entry and its text body survive parsing. On the
  text above the parsed sequence has one entry, and none with a \<open>$diff\<close> key.
\<close>

theorem C6_diff_entry_lost:
  "\<exists>conv.
     parseTqlConversationFromString
       (js ''#conversation[1]:'' @ [10, 10] @ js ''#document[+0]:'' @ [10] @
        js ''@table[0]:'' @ [10] @ js ''| index |'' @ [10] @ js ''|-------|'' @ [10, 10] @
        js ''$diff[+0'' @ [8594] @ js ''+1]:'' @ [10] @ js ''TQL DIFF'') = Inr conv
     \<and> length (sequence conv) = 1
     \<and> \<not> list_ex (\<lambda>item. startsWith (fst item) (js ''$diff'')) (sequence conv)"
  using conversation_with_diff_section by (simp add: startsWith_def)

text \<open>
  A text without a conversation header is read as one document. A diff header is then
  no header at all, and a diff body line that is a table line is read as a row of the
  current facet.
\<close>

lemma legacy_text_reads_diff_body:
  "parseTqlConversationFromString
     (js ''@table[0]:'' @ [10] @ js ''| index |'' @ [10] @ js ''|-------|'' @ [10] @
      js ''$diff[+0'' @ [8594] @ js ''+1]:'' @ [10] @ js ''| 7 |'')
   = Inr \<lparr>sequence =
       [(js ''#document[+0]'', emptyDocument\<lparr>table_rows := [[(js ''index'', js ''7'')]]\<rparr>)]\<rparr>"
  by (simp add: conv_defs eval_defs)

text \<open>
  The same lines as the document section of a conversation text, the diff section
  following the table without a blank line: the conversation parser ends the document
  at the diff header and drops the diff section. The document has no row, and the text
  without the diff section parses to the same conversation.
\<close>

theorem C6_witness:
  "conversationMatch (hd (split_str 10
      (js ''#conversation[1]:'' @ [10, 10] @ js ''#document[+0]:'' @ [10] @
       js ''@table[0]:'' @ [10] @ js ''| index |'' @ [10] @ js ''|-------|'' @ [10] @
       js ''$diff[+0'' @ [8594] @ js ''+1]:'' @ [10] @ js ''| 7 |''))) = Some (js ''1'')
   \<and> parseTqlConversationFromString
      (js ''#conversation[1]:'' @ [10, 10] @ js ''#document[+0]:'' @ [10] @
       js ''@table[0]:'' @ [10] @ js ''| index |'' @ [10] @ js ''|-------|'' @ [10] @
       js ''$diff[+0'' @ [8594] @ js ''+1]:'' @ [10] @ js ''| 7 |'')
     = Inr \<lparr>sequence = [(js ''#document[+0]'', emptyDocument)]\<rparr>
   \<and> documentSections (tl (split_str 10
      (js ''#conversation[1]:'' @ [10, 10] @ js ''#document[+0]:'' @ [10] @
       js ''@table[0]:'' @ [10] @ js ''| index |'' @ [10] @ js ''|-------|'' @ [10] @
       js ''$diff[+0'' @ [8594] @ js ''+1]:'' @ [10] @ js ''| 7 |'')))
     = [(js ''#document[+0]'', [js ''@table[0]:'', js ''| index |'', js ''|-------|''])]
   \<and> parseTqlDocumentFromString
       (join [10] [js ''@table[0]:'', js ''| index |'', js ''|-------|'']) = Inr emptyDocument
   \<and> parseTqlConversationFromString
      (js ''#conversation[1]:'' @ [10, 10] @ js ''#document[+0]:'' @ [10] @
       js ''@table[0]:'' @ [10] @ js ''| index |'' @ [10] @ js ''|-------|'')
     = Inr \<lparr>sequence = [(js ''#document[+0]'', emptyDocument)]\<rparr>"
proof -
  let ?T = "js ''#conversation[1]:'' @ [10, 10] @ js ''#document[+0]:'' @ [10] @
       js ''@table[0]:'' @ [10] @ js ''| index |'' @ [10] @ js ''|-------|'' @ [10] @
       js ''$diff[+0'' @ [8594] @ js ''+1]:'' @ [10] @ js ''| 7 |''"
  have m: "conversationMatch (hd (split_str 10 ?T)) = Some (js ''1'')"
    by (simp add: conv_defs eval_defs)
  have p: "parseTqlConversationFromString ?T
      = Inr \<lparr>sequence = [(js ''#document[+0]'', emptyDocument)]\<rparr>"
    by (simp add: conv_defs eval_defs)
  have s: "documentSections (tl (split_str 10 ?T))
      = [(js ''#document[+0]'', [js ''@table[0]:'', js ''| index |'', js ''|-------|''])]"
    by (simp add: conv_defs eval_defs)
  have w: "join [10] (hd (split_str 10 ?T) # withoutDiffSections False (tl (split_str 10 ?T)))
      = js ''#conversation[1]:'' @ [10, 10] @ js ''#document[+0]:'' @ [10] @
        js ''@table[0]:'' @ [10] @ js ''| index |'' @ [10] @ js ''|-------|''"
    by (simp add: conv_defs eval_defs)
  from C6_diff_sections_dropped [OF m]
  have "parseTqlConversationFromString
       (join [10] (hd (split_str 10 ?T) # withoutDiffSections False (tl (split_str 10 ?T))))
     = parseTqlConversationFromString ?T"
    and "map (\<lambda>(k, d). (k, Inr d)) (sequence \<lparr>sequence = [(js ''#document[+0]'', emptyDocument)]\<rparr>) =
          map (\<lambda>(k, body). (k, parseTqlDocumentFromString (join [10] body)))
            (filter (\<lambda>(k, body). body \<noteq> []) (documentSections (tl (split_str 10 ?T))))"
    using p by blast+
  then have "parseTqlConversationFromString
      (js ''#conversation[1]:'' @ [10, 10] @ js ''#document[+0]:'' @ [10] @
       js ''@table[0]:'' @ [10] @ js ''| index |'' @ [10] @ js ''|-------|'')
     = Inr \<lparr>sequence = [(js ''#document[+0]'', emptyDocument)]\<rparr>"
    and "parseTqlDocumentFromString
       (join [10] [js ''@table[0]:'', js ''| index |'', js ''|-------|'']) = Inr emptyDocument"
    unfolding w p s by simp_all
  with m p s show ?thesis by (simp only:)
qed

section \<open>Where the parser does return\<close>

text \<open>
  On a text none of whose facet headers carries a raising name, the document parser
  returns a document; and while the current facet is a name the registry does not own
  (and not a raising one), no line changes the document.
\<close>

lemma addRowToFacet_returns:
  "f \<notin> set raisingNames \<Longrightarrow> \<exists>d'. addRowToFacet d f r = Inr d'"
  by (auto simp: addRowToFacet_def raisingNames_def split: option.splits)

lemma parseLine_returns:
  assumes "\<forall>f. currentFacet st = Some f \<longrightarrow> f \<notin> set raisingNames"
    and "\<forall>f. parseFacetHeader (trim l) = Some f \<longrightarrow> f \<notin> set raisingNames"
  shows "\<exists>st'. parseLine st l = Inr st'
     \<and> (\<forall>f. currentFacet st' = Some f \<longrightarrow> f \<notin> set raisingNames)"
proof (cases "parseFacetHeader (trim l)")
  case (Some name)
  with assms show ?thesis
    by (auto simp: parseLine_def Let_def)
next
  case None
  show ?thesis
  proof (cases "currentFacet st")
    case cNone: None
    with None show ?thesis by (auto simp: parseLine_def Let_def)
  next
    case (Some f)
    with assms(1) have "f \<notin> set raisingNames" by simp
    then obtain d' where "addRowToFacet (doc st) f
        (buildRow (currentHeaders st) (parseTableRow (trim l))) = Inr d'"
      using addRowToFacet_returns by blast
    with None Some assms(1) show ?thesis
      by (auto simp: parseLine_def Let_def)
  qed
qed

lemma parseLines_returns:
  "\<forall>f. currentFacet st = Some f \<longrightarrow> f \<notin> set raisingNames \<Longrightarrow>
   \<forall>l \<in> set ls. \<forall>f. parseFacetHeader (trim l) = Some f \<longrightarrow> f \<notin> set raisingNames \<Longrightarrow>
   \<exists>st'. parseLines st ls = Inr st'"
proof (induction ls arbitrary: st)
  case Nil
  show ?case by simp
next
  case (Cons l ls)
  from Cons.prems obtain st1 where 1: "parseLine st l = Inr st1"
    and 2: "\<forall>f. currentFacet st1 = Some f \<longrightarrow> f \<notin> set raisingNames"
    using parseLine_returns [of st l] by auto
  from Cons.IH [OF 2] Cons.prems(2) obtain st' where "parseLines st1 ls = Inr st'"
    by auto
  with 1 show ?case by simp
qed

lemma parseTqlDocumentFromString_returns:
  assumes "\<forall>l \<in> set (split_str 10 content).
             \<forall>f. parseFacetHeader (trim l) = Some f \<longrightarrow> f \<notin> set raisingNames"
  shows "\<exists>d. parseTqlDocumentFromString content = Inr d"
proof -
  have "\<exists>st'. parseLines initialState (split_str 10 content) = Inr st'"
    using assms by (intro parseLines_returns) (simp_all add: initialState_def)
  then show ?thesis
    by (auto simp: parseTqlDocumentFromString_def)
qed

lemma unknown_facet_rows_ignored:
  assumes "currentFacet st = Some f" "map_of FACET_REGISTRY f = None" "f \<notin> set raisingNames"
    and "parseFacetHeader (trim l) = None"
  shows "\<exists>st'. parseLine st l = Inr st' \<and> doc st' = doc st"
proof -
  have "addRowToFacet (doc st) f r = Inr (doc st)" for r
    using assms(2,3) by (auto simp: addRowToFacet_def raisingNames_def)
  with assms(1,4) show ?thesis
    by (auto simp: parseLine_def Let_def)
qed

text \<open>
  A meaning row stored without an \<open>index\<close> field, as after
  \<open>insertRow(doc, meaning, {column: id, definition: ...})\<close>: the generator renders the
  \<open>index\<close> column empty, and the row parsed back owns an empty \<open>index\<close>.
\<close>

lemma index_column_read_back:
  "parseTqlDocumentFromString
     (generateTqlFromJson
        (emptyDocument\<lparr>meaning_rows :=
           [[(js ''column'', js ''id''), (js ''definition'', js ''Unique identifier'')]]\<rparr>))
   = Inr (emptyDocument\<lparr>meaning_rows :=
           [[(js ''index'', []), (js ''column'', js ''id''),
             (js ''definition'', js ''Unique identifier'')]]\<rparr>)"
proof -
  let ?d = "emptyDocument\<lparr>meaning_rows :=
           [[(js ''column'', js ''id''), (js ''definition'', js ''Unique identifier'')]]\<rparr>"
  have "renderableDocument ?d" by (simp add: wf_eval emptyDocument_def)
  then have "parseTqlDocumentFromString (generateTqlFromJson ?d) = Inr (roundTripDocument ?d)"
    by (rule generate_parse)
  also have "roundTripDocument ?d = emptyDocument\<lparr>meaning_rows :=
           [[(js ''index'', []), (js ''column'', js ''id''),
             (js ''definition'', js ''Unique identifier'')]]\<rparr>"
    by (simp add: wf_eval emptyDocument_def)
  finally show ?thesis .
qed

end
